theory Spec2Isabelle
  imports Complex_Main "HOL-Library.Sublist" "HOL-Library.Multiset" "HOL-Library.AList" "HOL-Library.Log_Nat"
begin

section \<open>Python values and errors\<close>

text \<open>
  The services exchange dynamically typed Python values: the result of \<^verbatim>\<open>json.loads\<close>, the
  reports that are returned and cached. \<open>PNumpyBool\<close> is a \<^verbatim>\<open>numpy.bool_\<close>, the
  result of comparing numpy numbers; it is no Python \<^verbatim>\<open>bool\<close>. A dictionary keeps its insertion order, so it is an association
  list with distinct keys: \<open>AList.update\<close> replaces the value of a key in place and appends
  a new key, as a Python item assignment does.

  A Python float is a binary64 number: a finite one is the real number it stands for, next
  to the two infinities and NaN. The sign of zero is not kept.

  A \<open>string\<close> is the sequence of code points of a Python \<^verbatim>\<open>str\<close>; the character
  type holds the code points below 256.
\<close>

datatype pyfloat = Fin real | PInf | NInf | NaN

datatype pyval =
    PNone
  | PBool bool
  | PInt int
  | PFloat pyfloat
  | PNumpyBool bool
  | PStr string
  | PList "pyval list"
  | PDict "(string \<times> pyval) list"

text \<open>
  An exception is a value. \<open>JSONDecodeError\<close> is the one \<^verbatim>\<open>extract_json\<close>
  catches. \<open>Unmodelled\<close> marks an input on which a library call (pandas, numpy) has a
  behaviour this development does not describe.
\<close>

datatype error =
    ValueError string
  | JSONDecodeError
  | TypeError
  | KeyError string
  | OverflowError
  | ZeroDivisionError
  | AttributeError
  | ModelError string
  | Unmodelled string

section \<open>Binary64 arithmetic\<close>

text \<open>
  A basic operation of IEEE 754 returns the binary64 number nearest to the exact result, a
  tie going to the even significand; \<open>rnd\<close> is that rounding of a real number. A
  binary64 number is an integer of at most 53 bits times a power of two whose exponent
  is at least -1074; what rounds to two to the power 1024 or beyond is an infinity.
\<close>

definition signed_inf :: "bool \<Rightarrow> pyfloat" where
  "signed_inf positive = (if positive then PInf else NInf)"

text \<open>Rounding to the nearest integer, a tie to the even one.\<close>

definition round_half_even :: "real \<Rightarrow> int" where
  "round_half_even x =
     (let f = \<lfloor>x\<rfloor>; d = x - of_int f in
      if d < 1 / 2 then f else if d > 1 / 2 then f + 1 else if even f then f else f + 1)"

definition pow2 :: "int \<Rightarrow> real" where
  "pow2 k = (if k \<ge> 0 then of_int (2 ^ nat k) else 1 / of_int (2 ^ nat (- k)))"

text \<open>The binary exponent of a positive number: \<open>pow2 e \<le> a < pow2 (e + 1)\<close>.\<close>

definition ilog2 :: "real \<Rightarrow> int" where
  "ilog2 a =
     (if a \<ge> 1 then bitlen \<lfloor>a\<rfloor> - 1
      else let k = bitlen \<lfloor>1 / a\<rfloor> in if a * pow2 (k - 1) \<ge> 1 then 1 - k else - k)"

definition rnd :: "real \<Rightarrow> pyfloat" where
  "rnd x =
     (if x = 0 then Fin 0
      else
        let a = \<bar>x\<bar>; e = max (ilog2 a) (- 1022) in
        if e > 1023 then signed_inf (x > 0)
        else
          let q = e - 52; r = round_half_even (a / pow2 q) in
          if e = 1023 \<and> r = 9007199254740992 then signed_inf (x > 0)
          else Fin ((if x > 0 then 1 else - 1) * (of_int r * pow2 q)))"

text \<open>
  The operations on floats. A finite non-zero number divided by zero is the infinity of
  the dividend's sign (numpy; Python's own division never meets a zero divisor in this
  program). A comparison with NaN is false.
\<close>

fun fneg :: "pyfloat \<Rightarrow> pyfloat" where
  "fneg (Fin a) = Fin (- a)"
| "fneg PInf = NInf"
| "fneg NInf = PInf"
| "fneg NaN = NaN"

fun fadd :: "pyfloat \<Rightarrow> pyfloat \<Rightarrow> pyfloat" where
  "fadd (Fin a) (Fin b) = rnd (a + b)"
| "fadd NaN _ = NaN"
| "fadd _ NaN = NaN"
| "fadd PInf NInf = NaN"
| "fadd NInf PInf = NaN"
| "fadd PInf _ = PInf"
| "fadd NInf _ = NInf"
| "fadd _ PInf = PInf"
| "fadd _ NInf = NInf"

definition fsub :: "pyfloat \<Rightarrow> pyfloat \<Rightarrow> pyfloat" where
  "fsub x y = fadd x (fneg y)"

fun fmul :: "pyfloat \<Rightarrow> pyfloat \<Rightarrow> pyfloat" where
  "fmul (Fin a) (Fin b) = rnd (a * b)"
| "fmul NaN _ = NaN"
| "fmul _ NaN = NaN"
| "fmul (Fin a) PInf = (if a = 0 then NaN else signed_inf (a > 0))"
| "fmul (Fin a) NInf = (if a = 0 then NaN else signed_inf (a < 0))"
| "fmul PInf (Fin b) = (if b = 0 then NaN else signed_inf (b > 0))"
| "fmul NInf (Fin b) = (if b = 0 then NaN else signed_inf (b < 0))"
| "fmul PInf PInf = PInf"
| "fmul PInf NInf = NInf"
| "fmul NInf PInf = NInf"
| "fmul NInf NInf = PInf"

fun fdiv :: "pyfloat \<Rightarrow> pyfloat \<Rightarrow> pyfloat" where
  "fdiv (Fin a) (Fin b) =
     (if b = 0 then (if a = 0 then NaN else signed_inf (a > 0)) else rnd (a / b))"
| "fdiv NaN _ = NaN"
| "fdiv _ NaN = NaN"
| "fdiv (Fin a) _ = Fin 0"
| "fdiv PInf (Fin b) = signed_inf (b \<ge> 0)"
| "fdiv NInf (Fin b) = signed_inf (b < 0)"
| "fdiv _ _ = NaN"

text \<open>
  \<^verbatim>\<open>np.sqrt\<close>. The square root of a real number is left unevaluated when an example is
  computed, since it has no code equation.
\<close>

definition np_sqrt :: "real \<Rightarrow> real" where
  "np_sqrt a = sqrt a"

declare np_sqrt_def [code del]

fun fsqrt :: "pyfloat \<Rightarrow> pyfloat" where
  "fsqrt (Fin a) = (if a < 0 then NaN else rnd (np_sqrt a))"
| "fsqrt PInf = PInf"
| "fsqrt _ = NaN"

fun fgt :: "pyfloat \<Rightarrow> pyfloat \<Rightarrow> bool" where
  "fgt (Fin a) (Fin b) = (a > b)"
| "fgt NaN _ = False"
| "fgt _ NaN = False"
| "fgt PInf PInf = False"
| "fgt PInf _ = True"
| "fgt _ NInf = True"
| "fgt _ _ = False"

definition flt :: "pyfloat \<Rightarrow> pyfloat \<Rightarrow> bool" where
  "flt x y = fgt y x"

text \<open>\<^verbatim>\<open>np.rint\<close>: the nearest integer, a tie to the even one, as a float.\<close>

fun frint :: "pyfloat \<Rightarrow> pyfloat" where
  "frint (Fin a) = Fin (of_int (round_half_even a))"
| "frint x = x"

section \<open>Text\<close>

text \<open>\<^verbatim>\<open>str.isspace\<close>, which is also the class \<^verbatim>\<open>\s\<close> of \<^verbatim>\<open>re\<close> on a \<^verbatim>\<open>str\<close>.\<close>

definition isspace :: "char \<Rightarrow> bool" where
  "isspace c = (of_char c \<in> {9, 10, 11, 12, 13, 28, 29, 30, 31, 32, 133, 160 :: nat})"

definition strip :: "string \<Rightarrow> string" where
  "strip s = rev (dropWhile isspace (rev (dropWhile isspace s)))"

section \<open>The JSON salvage extractor\<close>

text \<open>
  \<^verbatim>\<open>re.search(pattern, text)\<close>: the anchored matcher is tried at every start position from the
  left, the end of the text included; the first position that matches wins.
\<close>

fun re_search :: "(string \<Rightarrow> 'a option) \<Rightarrow> string \<Rightarrow> 'a option" where
  "re_search m [] = m []"
| "re_search m (c # cs) = (case m (c # cs) of Some g \<Rightarrow> Some g | None \<Rightarrow> re_search m cs)"

text \<open>
  The tail \<^verbatim>\<open>[\s\S]*?\})\s*```\<close> of both patterns, matched after the opening brace. The
  quantifier is lazy: the group closes at the first closing brace that is followed by
  white space and three backquotes. The result is the text of the lazy part with its brace.
\<close>

fun brace_close :: "string \<Rightarrow> string option" where
  "brace_close [] = None"
| "brace_close (c # cs) =
     (if c = CHR ''}'' \<and> prefix ''```'' (dropWhile isspace cs) then Some [c]
      else map_option ((#) c) (brace_close cs))"

text \<open>
  The pattern \<^verbatim>\<open>opener\s*(\{[\s\S]*?\})\s*```\<close> anchored at the head of \<open>s\<close>; the result
  is group 1. The opener is \<^verbatim>\<open>```json\<close> for the first pattern and \<^verbatim>\<open>```\<close> for the second.
\<close>

definition match_fence :: "string \<Rightarrow> string \<Rightarrow> string option" where
  "match_fence opener s =
     (if prefix opener s then
        (case dropWhile isspace (drop (length opener) s) of
           [] \<Rightarrow> None
         | c # cs \<Rightarrow> if c = CHR ''{'' then map_option ((#) c) (brace_close cs) else None)
      else None)"

definition patterns :: "string list" where
  "patterns = [''```json'', ''```'']"

text \<open>\<^verbatim>\<open>str.find\<close> and \<^verbatim>\<open>str.rfind\<close> of one character; \<open>None\<close> is the result -1.\<close>

fun find_char :: "char \<Rightarrow> string \<Rightarrow> nat option" where
  "find_char x [] = None"
| "find_char x (c # cs) = (if c = x then Some 0 else map_option Suc (find_char x cs))"

definition rfind_char :: "char \<Rightarrow> string \<Rightarrow> nat option" where
  "rfind_char x s = map_option (\<lambda>i. length s - 1 - i) (find_char x (rev s))"

text \<open>
  The loop over the two patterns. A pattern that does not match, or whose group does not
  parse, passes to the next one; any other exception of the parser leaves the function.
\<close>

fun try_patterns :: "(string \<Rightarrow> error + 'j) \<Rightarrow> string list \<Rightarrow> string \<Rightarrow> error + 'j option" where
  "try_patterns loads [] s = Inr None"
| "try_patterns loads (p # ps) s =
     (case re_search (match_fence p) s of
        None \<Rightarrow> try_patterns loads ps s
      | Some g \<Rightarrow>
          (case loads g of
             Inr v \<Rightarrow> Inr (Some v)
           | Inl JSONDecodeError \<Rightarrow> try_patterns loads ps s
           | Inl e \<Rightarrow> Inl e))"

definition brace_span :: "string \<Rightarrow> string option" where
  "brace_span s =
     (case (find_char CHR ''{'' s, rfind_char CHR ''}'' s) of
        (Some first_brace, Some last_brace) \<Rightarrow>
          if last_brace > first_brace
          then Some (take (last_brace + 1 - first_brace) (drop first_brace s))
          else None
      | _ \<Rightarrow> None)"

definition parse_failure :: error where
  "parse_failure = ValueError ''Failed to parse AI response as JSON''"

definition empty_response :: error where
  "empty_response = ValueError ''AI returned an empty response''"

text \<open>
  \<^verbatim>\<open>extract_json\<close>. The parser \<^verbatim>\<open>json.loads\<close> belongs to the standard library and is a
  parameter \<open>loads\<close>.
\<close>

definition extract_json :: "(string \<Rightarrow> error + 'j) \<Rightarrow> string \<Rightarrow> error + 'j" where
  "extract_json loads text =
     (if text = [] then Inl empty_response
      else
        let clean_text = strip text in
        case loads clean_text of
          Inr v \<Rightarrow> Inr v
        | Inl JSONDecodeError \<Rightarrow>
            (case try_patterns loads patterns clean_text of
               Inl e \<Rightarrow> Inl e
             | Inr (Some v) \<Rightarrow> Inr v
             | Inr None \<Rightarrow>
                 (case brace_span clean_text of
                    None \<Rightarrow> Inl parse_failure
                  | Some sub \<Rightarrow>
                      (case loads sub of
                         Inr v \<Rightarrow> Inr v
                       | Inl JSONDecodeError \<Rightarrow> Inl parse_failure
                       | Inl e \<Rightarrow> Inl e)))
        | Inl e \<Rightarrow> Inl e)"

text \<open>
  A text has a brace span when some substring of it starts with an opening brace and ends
  with a later closing brace.
\<close>

definition has_brace_span :: "string \<Rightarrow> bool" where
  "has_brace_span s = (\<exists>a b. s = a @ CHR ''{'' # b \<and> CHR ''}'' \<in> set b)"

section \<open>A reference model of the standard-library JSON parser\<close>

text \<open>
  \<^verbatim>\<open>json.loads\<close> on a \<^verbatim>\<open>str\<close>, after the grammar of the standard library's decoder:
  white space is blank, tab, line feed and carriage return; a string is strict (no control
  character); a number without fraction and exponent is an integer, any other one the float
  nearest to its decimal value; the literals \<^verbatim>\<open>NaN\<close>, \<^verbatim>\<open>Infinity\<close> and \<^verbatim>\<open>-Infinity\<close> are
  accepted; in an object the last value of a repeated key wins. Every nested value and every
  member costs one unit of fuel, the parser starts with the text's length plus one, and
  running out of fuel is reported as \<open>Unmodelled\<close>, never as a parse error. Escapes of
  code points above 255 and the recursion limit of the interpreter are not described.
  The theorems about \<^verbatim>\<open>extract_json\<close> hold for every parser; this one evaluates the
  examples.
\<close>

definition ebind :: "error + 'a \<Rightarrow> ('a \<Rightarrow> error + 'b) \<Rightarrow> error + 'b" where
  "ebind m f = (case m of Inl e \<Rightarrow> Inl e | Inr x \<Rightarrow> f x)"

definition json_ws :: "char \<Rightarrow> bool" where
  "json_ws c = (of_char c \<in> {32, 9, 10, 13 :: nat})"

definition is_digit :: "char \<Rightarrow> bool" where
  "is_digit c = (48 \<le> (of_char c :: nat) \<and> (of_char c :: nat) \<le> 57)"

definition digit_val :: "char \<Rightarrow> int" where
  "digit_val c = of_char c - 48"

definition digits_val :: "string \<Rightarrow> int" where
  "digits_val ds = foldl (\<lambda>n c. 10 * n + digit_val c) 0 ds"

definition hex_val :: "char \<Rightarrow> nat option" where
  "hex_val c =
     (let n = (of_char c :: nat) in
      if 48 \<le> n \<and> n \<le> 57 then Some (n - 48)
      else if 65 \<le> n \<and> n \<le> 70 then Some (n - 55)
      else if 97 \<le> n \<and> n \<le> 102 then Some (n - 87)
      else None)"

definition unescape :: "char \<Rightarrow> char option" where
  "unescape e =
     (if e = CHR 0x22 then Some (CHR 0x22)
      else if e = CHR 0x5C then Some (CHR 0x5C)
      else if e = CHR ''/'' then Some (CHR ''/'')
      else if e = CHR ''b'' then Some (CHR 0x08)
      else if e = CHR ''f'' then Some (CHR 0x0C)
      else if e = CHR ''n'' then Some (CHR 0x0A)
      else if e = CHR ''r'' then Some (CHR 0x0D)
      else if e = CHR ''t'' then Some (CHR 0x09)
      else None)"

fun scan_string :: "string \<Rightarrow> error + (string \<times> string)" where
  "scan_string [] = Inl JSONDecodeError"
| "scan_string (c # cs) =
     (if c = CHR 0x22 then Inr ([], cs)
      else if c = CHR 0x5C then
        (case cs of
           [] \<Rightarrow> Inl JSONDecodeError
         | e # es \<Rightarrow>
             if e = CHR ''u'' then
               (case es of
                  h1 # h2 # h3 # h4 # rest \<Rightarrow>
                    (case (hex_val h1, hex_val h2, hex_val h3, hex_val h4) of
                       (Some a, Some b, Some c, Some d) \<Rightarrow>
                         if a = 0 \<and> b = 0
                         then ebind (scan_string rest) (\<lambda>(t, r). Inr (char_of (16 * c + d) # t, r))
                         else Inl (Unmodelled ''code point above 255'')
                     | _ \<Rightarrow> Inl JSONDecodeError)
                | _ \<Rightarrow> Inl JSONDecodeError)
             else
               (case unescape e of
                  None \<Rightarrow> Inl JSONDecodeError
                | Some ch \<Rightarrow> ebind (scan_string es) (\<lambda>(t, r). Inr (ch # t, r))))
      else if (of_char c :: nat) < 32 then Inl JSONDecodeError
      else ebind (scan_string cs) (\<lambda>(t, r). Inr (c # t, r)))"

definition scan_number :: "string \<Rightarrow> (pyval \<times> string) option" where
  "scan_number s =
     (let (neg, s1) = (case s of c # r \<Rightarrow> if c = CHR ''-'' then (True, r) else (False, s) | [] \<Rightarrow> (False, s));
          sgn = (if neg then -1 else 1 :: int)
      in case s1 of
           [] \<Rightarrow> None
         | d # r \<Rightarrow>
             if \<not> is_digit d then None
             else
               let ipart = (if d = CHR ''0'' then [d] else d # takeWhile is_digit r);
                   s2 = drop (length ipart) s1;
                   fpart = (case s2 of
                              c # r2 \<Rightarrow> if c = CHR ''.'' then takeWhile is_digit r2 else []
                            | [] \<Rightarrow> []);
                   s3 = (if fpart = [] then s2 else drop (Suc (length fpart)) s2);
                   (eneg, s4) = (case s3 of
                                   c # r3 \<Rightarrow>
                                     if c = CHR ''e'' \<or> c = CHR ''E'' then
                                       (case r3 of
                                          g # r4 \<Rightarrow>
                                            if g = CHR ''-'' then (True, r4)
                                            else if g = CHR ''+'' then (False, r4)
                                            else (False, r3)
                                        | [] \<Rightarrow> (False, r3))
                                     else (False, [])
                                 | [] \<Rightarrow> (False, []));
                   epart = takeWhile is_digit s4;
                   s5 = (if epart = [] then s3 else drop (length epart) s4)
               in if fpart = [] \<and> epart = [] then Some (PInt (sgn * digits_val ipart), s5)
                  else
                    let m = real_of_int (digits_val ipart) + real_of_int (digits_val fpart) / 10 ^ length fpart;
                        x = (if eneg then m / 10 ^ nat (digits_val epart)
                             else m * 10 ^ nat (digits_val epart))
                    in Some (PFloat (rnd (real_of_int sgn * x)), s5))"

definition dict_of_pairs :: "(string \<times> pyval) list \<Rightarrow> (string \<times> pyval) list" where
  "dict_of_pairs ps = foldl (\<lambda>d (k, v). AList.update k v d) [] ps"

fun parse_value :: "nat \<Rightarrow> string \<Rightarrow> error + (pyval \<times> string)"
  and parse_members :: "nat \<Rightarrow> (string \<times> pyval) list \<Rightarrow> string \<Rightarrow> error + (pyval \<times> string)"
  and parse_elements :: "nat \<Rightarrow> pyval list \<Rightarrow> string \<Rightarrow> error + (pyval \<times> string)"
where
  "parse_value 0 s = Inl (Unmodelled ''fuel'')"
| "parse_value (Suc n) s =
     (case s of
        [] \<Rightarrow> Inl JSONDecodeError
      | c # cs \<Rightarrow>
          if c = CHR 0x22 then ebind (scan_string cs) (\<lambda>(t, r). Inr (PStr t, r))
          else if c = CHR ''{'' then
            (case dropWhile json_ws cs of
               [] \<Rightarrow> Inl JSONDecodeError
             | d # r \<Rightarrow>
                 if d = CHR ''}'' then Inr (PDict [], r)
                 else if d = CHR 0x22 then parse_members n [] r
                 else Inl JSONDecodeError)
          else if c = CHR ''['' then
            (case dropWhile json_ws cs of
               [] \<Rightarrow> Inl JSONDecodeError
             | d # r \<Rightarrow>
                 if d = CHR '']'' then Inr (PList [], r)
                 else parse_elements n [] (d # r))
          else if prefix ''null'' s then Inr (PNone, drop 4 s)
          else if prefix ''true'' s then Inr (PBool True, drop 4 s)
          else if prefix ''false'' s then Inr (PBool False, drop 5 s)
          else
            (case scan_number s of
               Some res \<Rightarrow> Inr res
             | None \<Rightarrow>
                 if prefix ''NaN'' s then Inr (PFloat NaN, drop 3 s)
                 else if prefix ''Infinity'' s then Inr (PFloat PInf, drop 8 s)
                 else if prefix ''-Infinity'' s then Inr (PFloat NInf, drop 9 s)
                 else Inl JSONDecodeError))"
| "parse_members 0 acc s = Inl (Unmodelled ''fuel'')"
| "parse_members (Suc n) acc s =
     ebind (scan_string s) (\<lambda>(key, r1).
       case dropWhile json_ws r1 of
         [] \<Rightarrow> Inl JSONDecodeError
       | c # r2 \<Rightarrow>
           if c \<noteq> CHR '':'' then Inl JSONDecodeError
           else
             ebind (parse_value n (dropWhile json_ws r2)) (\<lambda>(v, r3).
               case dropWhile json_ws r3 of
                 [] \<Rightarrow> Inl JSONDecodeError
               | d # r4 \<Rightarrow>
                   if d = CHR ''}'' then Inr (PDict (dict_of_pairs (acc @ [(key, v)])), r4)
                   else if d \<noteq> CHR '','' then Inl JSONDecodeError
                   else
                     (case dropWhile json_ws r4 of
                        [] \<Rightarrow> Inl JSONDecodeError
                      | q # r5 \<Rightarrow>
                          if q = CHR 0x22 then parse_members n (acc @ [(key, v)]) r5
                          else Inl JSONDecodeError)))"
| "parse_elements 0 acc s = Inl (Unmodelled ''fuel'')"
| "parse_elements (Suc n) acc s =
     ebind (parse_value n s) (\<lambda>(v, r1).
       case dropWhile json_ws r1 of
         [] \<Rightarrow> Inl JSONDecodeError
       | d # r2 \<Rightarrow>
           if d = CHR '']'' then Inr (PList (acc @ [v]), r2)
           else if d \<noteq> CHR '','' then Inl JSONDecodeError
           else parse_elements n (acc @ [v]) (dropWhile json_ws r2))"

definition json_loads :: "string \<Rightarrow> error + pyval" where
  "json_loads s =
     ebind (parse_value (Suc (length s)) (dropWhile json_ws s)) (\<lambda>(v, r).
       if dropWhile json_ws r = [] then Inr v else Inl JSONDecodeError)"

section \<open>Python operations on values\<close>

text \<open>Truth value of an object, as \<^verbatim>\<open>if not x\<close> and \<^verbatim>\<open>if x\<close> test it.\<close>

fun truthy :: "pyval \<Rightarrow> bool" where
  "truthy PNone = False"
| "truthy (PBool b) = b"
| "truthy (PInt n) = (n \<noteq> 0)"
| "truthy (PFloat x) = (x \<noteq> Fin 0)"
| "truthy (PNumpyBool b) = b"
| "truthy (PStr s) = (s \<noteq> [])"
| "truthy (PList xs) = (xs \<noteq> [])"
| "truthy (PDict d) = (d \<noteq> [])"

text \<open>
  \<^verbatim>\<open>key in obj\<close> for a string key: a key of a dictionary, an element of a list, a substring
  of a string; any other object is not iterable.
\<close>

fun py_contains :: "string \<Rightarrow> pyval \<Rightarrow> error + bool" where
  "py_contains k (PDict d) = Inr (k \<in> fst ` set d)"
| "py_contains k (PList xs) = Inr (PStr k \<in> set xs)"
| "py_contains k (PStr s) = Inr (sublist k s)"
| "py_contains k _ = Inl TypeError"

text \<open>\<^verbatim>\<open>obj[key]\<close> for a string key: only a dictionary can be indexed by a string.\<close>

fun py_getitem :: "pyval \<Rightarrow> string \<Rightarrow> error + pyval" where
  "py_getitem (PDict d) k = (case map_of d k of None \<Rightarrow> Inl (KeyError k) | Some v \<Rightarrow> Inr v)"
| "py_getitem _ k = Inl TypeError"

text \<open>\<^verbatim>\<open>obj[key] = value\<close> for a string key; the updated object is returned.\<close>

fun py_setitem :: "pyval \<Rightarrow> string \<Rightarrow> pyval \<Rightarrow> error + pyval" where
  "py_setitem (PDict d) k v = Inr (PDict (AList.update k v d))"
| "py_setitem _ k v = Inl TypeError"

text \<open>\<^verbatim>\<open>dict.get(key)\<close> and \<^verbatim>\<open>dict.get(key, default)\<close> on a dictionary's items.\<close>

definition dict_get :: "(string \<times> pyval) list \<Rightarrow> string \<Rightarrow> pyval \<Rightarrow> pyval" where
  "dict_get d k dflt = (case map_of d k of None \<Rightarrow> dflt | Some v \<Rightarrow> v)"

text \<open>
  \<^verbatim>\<open>str.lower\<close> on code points below 256: the letters A to Z, and the letters from
  0xC0 to 0xDE other than the multiplication sign 0xD7, move up by 32.
\<close>

definition lower_char :: "char \<Rightarrow> char" where
  "lower_char c =
     (let n = (of_char c :: nat) in
      if (65 \<le> n \<and> n \<le> 90) \<or> (192 \<le> n \<and> n \<le> 222 \<and> n \<noteq> 215) then char_of (n + 32) else c)"

definition lower :: "string \<Rightarrow> string" where
  "lower s = map lower_char s"

text \<open>
  \<^verbatim>\<open>str.upper\<close> on code points below 256, where the result stays below 256: the letters
  a to z, and the letters from 0xE0 to 0xFE other than the division sign 0xF7, move down
  by 32; the sharp s 0xDF becomes the two letters SS. The micro sign 0xB5 and the y with
  diaeresis 0xFF have their capital above 255: a string with one of them has no result
  here.
\<close>

definition upper_char :: "char \<Rightarrow> string option" where
  "upper_char c =
     (let n = (of_char c :: nat) in
      if (97 \<le> n \<and> n \<le> 122) \<or> (224 \<le> n \<and> n \<le> 254 \<and> n \<noteq> 247) then Some [char_of (n - 32)]
      else if n = 223 then Some ''SS''
      else if n = 181 \<or> n = 255 then None
      else Some [c])"

fun upper :: "string \<Rightarrow> string option" where
  "upper [] = Some []"
| "upper (c # cs) =
     (case (upper_char c, upper cs) of
        (Some u, Some us) \<Rightarrow> Some (u @ us)
      | _ \<Rightarrow> None)"

section \<open>Rounding and truncation\<close>

text \<open>
  \<^verbatim>\<open>round(x, ndigits)\<close> on a Python float: the decimal number with \<open>ndigits\<close> decimals
  nearest to the float's exact value, a tie to the even last digit, then the float
  nearest to that decimal number. An infinity and NaN are returned as they are.
\<close>

fun py_round :: "nat \<Rightarrow> pyfloat \<Rightarrow> pyfloat" where
  "py_round n (Fin a) = rnd (of_int (round_half_even (a * 10 ^ n)) / 10 ^ n)"
| "py_round n x = x"

text \<open>
  \<^verbatim>\<open>round(x, ndigits)\<close> on a \<^verbatim>\<open>numpy.float64\<close>, which is \<^verbatim>\<open>np.round\<close>: the float is
  multiplied by the power of ten, rounded to an integer by \<^verbatim>\<open>np.rint\<close>, and divided by
  the power of ten, each step a float operation.
\<close>

definition np_round :: "nat \<Rightarrow> pyfloat \<Rightarrow> pyfloat" where
  "np_round n x = fdiv (frint (fmul x (Fin (10 ^ n)))) (Fin (10 ^ n))"

text \<open>\<^verbatim>\<open>int(x)\<close> on a finite number: the fraction is cut off, towards zero.\<close>

definition py_int :: "real \<Rightarrow> int" where
  "py_int x = (if x \<ge> 0 then \<lfloor>x\<rfloor> else \<lceil>x\<rceil>)"

text \<open>\<^verbatim>\<open>int(x)\<close> on a float: NaN and the infinities have no integer.\<close>

fun float_to_int :: "pyfloat \<Rightarrow> error + int" where
  "float_to_int (Fin a) = Inr (py_int a)"
| "float_to_int NaN = Inl (ValueError ''cannot convert float NaN to integer'')"
| "float_to_int _ = Inl OverflowError"

section \<open>The statistics module\<close>

text \<open>
  The pandas and numpy calls of \<^verbatim>\<open>data_processor.py\<close> are described on the inputs the
  services produce. \<^verbatim>\<open>pd.DataFrame(x)\<close> is described for a list of dictionaries: one row
  per dictionary, one column per key that occurs in some row, a missing cell where a row
  lacks the key. \<^verbatim>\<open>pd.to_numeric(column, errors='coerce')\<close> converts cell by cell and is a
  parameter: \<open>None\<close> is the missing value NaN it yields for a cell it cannot convert.
  A converted cell is a finite number: an integer of an integer column, or a float.

  Two numpy routines are parameters as well, since their result depends on how the library
  orders its float operations: the sum of a float array (\<^verbatim>\<open>np.sum\<close>, and the sum inside
  \<^verbatim>\<open>np.mean\<close>, \<^verbatim>\<open>Series.mean\<close> and \<^verbatim>\<open>Series.std\<close>), and \<^verbatim>\<open>np.polyfit(x, y, 1)\<close>, which
  returns the slope and the intercept of its least-squares fit or raises.
\<close>

record numpy =
  sum_of :: "pyfloat list \<Rightarrow> pyfloat"
  polyfit_of :: "real list \<Rightarrow> real list \<Rightarrow> error + pyfloat \<times> pyfloat"

type_synonym row = "(string \<times> pyval) list"

fun dict_rows :: "pyval list \<Rightarrow> row list option" where
  "dict_rows [] = Some []"
| "dict_rows (PDict d # xs) = map_option ((#) d) (dict_rows xs)"
| "dict_rows (_ # xs) = None"

definition pd_DataFrame :: "pyval \<Rightarrow> error + row list" where
  "pd_DataFrame v =
     (case v of
        PList xs \<Rightarrow>
          (case dict_rows xs of
             Some rows \<Rightarrow> Inr rows
           | None \<Rightarrow> Inl (Unmodelled ''DataFrame of a list with an element that is no dictionary''))
      | _ \<Rightarrow> Inl (Unmodelled ''DataFrame of an object that is no list''))"

definition frame_columns :: "row list \<Rightarrow> string list" where
  "frame_columns rows = remdups (concat (map (map fst) rows))"

text \<open>A missing value in a column of objects: \<^verbatim>\<open>None\<close> or NaN.\<close>

fun is_na :: "pyval \<Rightarrow> bool" where
  "is_na PNone = True"
| "is_na (PFloat x) = (x = NaN)"
| "is_na _ = False"

record point =
  year :: real
  subscribers :: real
  videos :: real

definition numeric_cell :: "(pyval \<Rightarrow> real option) \<Rightarrow> row \<Rightarrow> string \<Rightarrow> real option" where
  "numeric_cell to_numeric r c = (case map_of r c of None \<Rightarrow> None | Some v \<Rightarrow> to_numeric v)"

definition other_cell_present :: "row \<Rightarrow> string \<Rightarrow> bool" where
  "other_cell_present r c =
     (c = ''year'' \<or> c = ''subscribers'' \<or> c = ''videos'' \<or>
      (case map_of r c of None \<Rightarrow> False | Some v \<Rightarrow> \<not> is_na v))"

text \<open>
  One row after the three conversions and \<^verbatim>\<open>dropna()\<close>: it is kept when its three
  numeric cells converted and no cell of any other column is missing.
\<close>

definition clean_row :: "(pyval \<Rightarrow> real option) \<Rightarrow> string list \<Rightarrow> row \<Rightarrow> point option" where
  "clean_row to_numeric cols r =
     (case (numeric_cell to_numeric r ''year'', numeric_cell to_numeric r ''subscribers'',
            numeric_cell to_numeric r ''videos'') of
        (Some y, Some s, Some v) \<Rightarrow>
          if list_all (other_cell_present r) cols
          then Some \<lparr>year = y, subscribers = s, videos = v\<rparr> else None
      | _ \<Rightarrow> None)"

text \<open>
  \<^verbatim>\<open>create_growth_dataframe\<close>. A column that no row has raises \<^verbatim>\<open>KeyError\<close>. The sort by
  year keeps rows of equal year in their order.
\<close>

definition create_growth_dataframe :: "(pyval \<Rightarrow> real option) \<Rightarrow> pyval \<Rightarrow> error + point list" where
  "create_growth_dataframe to_numeric growth_timeline =
     (if \<not> truthy growth_timeline then Inr []
      else
        ebind (pd_DataFrame growth_timeline) (\<lambda>rows.
          let cols = frame_columns rows in
          if ''year'' \<notin> set cols then Inl (KeyError ''year'')
          else if ''subscribers'' \<notin> set cols then Inl (KeyError ''subscribers'')
          else if ''videos'' \<notin> set cols then Inl (KeyError ''videos'')
          else Inr (sort_key year (List.map_filter (clean_row to_numeric cols) rows))))"

text \<open>
  \<^verbatim>\<open>Series.pct_change()\<close>: the first entry is NaN, every later one is the value divided by
  its predecessor, minus one, in float arithmetic.
\<close>

definition pct_change :: "real list \<Rightarrow> pyfloat list" where
  "pct_change xs =
     (case xs of
        [] \<Rightarrow> []
      | x # rest \<Rightarrow> NaN # map (\<lambda>(prev, cur). fsub (fdiv (rnd cur) (rnd prev)) (Fin 1)) (zip xs rest))"

definition dropna :: "pyfloat list \<Rightarrow> pyfloat list" where
  "dropna xs = filter (\<lambda>x. x \<noteq> NaN) xs"

text \<open>\<^verbatim>\<open>Series.mean()\<close> and \<^verbatim>\<open>np.mean\<close>: the sum over the count, NaN on an empty series.\<close>

definition mean :: "numpy \<Rightarrow> pyfloat list \<Rightarrow> pyfloat" where
  "mean np xs = (if xs = [] then NaN else fdiv (sum_of np xs) (Fin (real (length xs))))"

definition calculate_growth_rate :: "numpy \<Rightarrow> point list \<Rightarrow> pyval" where
  "calculate_growth_rate np df =
     (if length df < 2 then
        PDict [(''avg_subscriber_growth'', PFloat (Fin 0)),
               (''avg_video_growth'', PFloat (Fin 0)),
               (''growth_trend'', PStr ''insufficient_data'')]
      else
        let sub_growth = map (\<lambda>c. fmul c (Fin 100)) (pct_change (map subscribers df));
            video_growth = map (\<lambda>c. fmul c (Fin 100)) (pct_change (map videos df));
            avg_sub_growth = mean np (dropna sub_growth);
            avg_video_growth = mean np (dropna video_growth);
            trend = (if fgt avg_sub_growth (Fin 10) then ''rapid_growth''
                     else if fgt avg_sub_growth (Fin 0) then ''steady_growth''
                     else if fgt avg_sub_growth (Fin (- 5)) then ''stable''
                     else ''declining'')
        in PDict [(''avg_subscriber_growth'', PFloat (np_round 2 avg_sub_growth)),
                  (''avg_video_growth'', PFloat (np_round 2 avg_video_growth)),
                  (''growth_trend'', PStr trend),
                  (''latest_subscribers'', PInt (py_int (subscribers (last df)))),
                  (''latest_videos'', PInt (py_int (videos (last df))))])"

text \<open>
  \<^verbatim>\<open>calculate_trend_prediction\<close>. The square \<^verbatim>\<open>** 2\<close> of a float is its product with
  itself. \<^verbatim>\<open>int\<close> of the first prediction raises when that float is NaN or infinite.
\<close>

definition fsquare :: "pyfloat \<Rightarrow> pyfloat" where
  "fsquare x = fmul x x"

definition calculate_trend_prediction :: "numpy \<Rightarrow> point list \<Rightarrow> nat \<Rightarrow> error + pyval" where
  "calculate_trend_prediction np df periods =
     (if length df < 3 then Inr (PDict [(''prediction_available'', PBool False)])
      else
        let x = map real [0 ..< length df];
            y = map subscribers df
        in ebind (polyfit_of np x y) (\<lambda>(slope, intercept).
          let trend_line = map (\<lambda>xi. fadd (fmul slope (rnd xi)) intercept) x;
              future_x = map real [length df ..< length df + periods];
              predictions = map (\<lambda>xi. fadd (fmul slope (rnd xi)) intercept) future_x;
              y_mean = mean np (map rnd y);
              ss_tot = sum_of np (map (\<lambda>yi. fsquare (fsub (rnd yi) y_mean)) y);
              ss_res = sum_of np (map (\<lambda>(yi, ti). fsquare (fsub (rnd yi) ti)) (zip y trend_line));
              r_squared = fsub (Fin 1) (fdiv ss_res ss_tot)
          in ebind (case predictions of
                      [] \<Rightarrow> Inr PNone
                    | p # _ \<Rightarrow> ebind (float_to_int p) (\<lambda>predicted. Inr (PInt predicted)))
               (\<lambda>predicted_next_year.
                  Inr (PDict [(''prediction_available'', PBool True),
                              (''slope'', PFloat slope),
                              (''r_squared'', PFloat r_squared),
                              (''trend_strength'',
                                 PStr (if fgt r_squared (rnd (7 / 10)) then ''strong''
                                       else if fgt r_squared (rnd (4 / 10)) then ''moderate''
                                       else ''weak'')),
                              (''predicted_next_year'', predicted_next_year)]))))"

text \<open>
  \<^verbatim>\<open>calculate_battle_statistics\<close>, described for a frame whose every row has a finite
  number in the column \<^verbatim>\<open>overall\<close>. The standard deviation is the sample one, as pandas
  computes it: the mean, the sum of the squared deviations from it over the count less
  one, and the square root. The two comparisons give a \<^verbatim>\<open>numpy.bool_\<close>.
\<close>

fun as_number :: "pyval \<Rightarrow> real option" where
  "as_number (PInt n) = Some (real_of_int n)"
| "as_number (PFloat (Fin a)) = Some a"
| "as_number _ = None"

fun overall_column :: "row list \<Rightarrow> real list option" where
  "overall_column [] = Some []"
| "overall_column (r # rs) =
     (case map_of r ''overall'' of
        None \<Rightarrow> None
      | Some v \<Rightarrow>
          (case as_number v of
             None \<Rightarrow> None
           | Some a \<Rightarrow> map_option ((#) a) (overall_column rs)))"

definition series_std :: "numpy \<Rightarrow> real list \<Rightarrow> pyfloat" where
  "series_std np xs =
     (let avg = mean np (map rnd xs);
          sqr = map (\<lambda>v. fsquare (fsub avg (rnd v))) xs
      in fsqrt (fdiv (sum_of np sqr) (Fin (real (length xs) - 1))))"

definition calculate_battle_statistics :: "numpy \<Rightarrow> row list \<Rightarrow> error + pyval" where
  "calculate_battle_statistics np scores_df =
     (if length scores_df < 2 then Inr (PDict [(''statistical_analysis'', PStr ''insufficient_data'')])
      else if ''overall'' \<notin> set (frame_columns scores_df) then Inl (KeyError ''overall'')
      else
        (case overall_column scores_df of
           None \<Rightarrow> Inl (Unmodelled ''a score that is no finite number'')
         | Some overall_scores \<Rightarrow>
             let ranked = rev (sort overall_scores);
                 top_score = ranked ! 0;
                 second_score = ranked ! 1;
                 score_diff = rnd (top_score - second_score)
             in Inr (PDict [(''mean_score'', PFloat (mean np (map rnd overall_scores))),
                            (''std_dev'', PFloat (series_std np overall_scores)),
                            (''score_range'', PFloat (rnd (top_score - last ranked))),
                            (''close_competition'',
                               PNumpyBool (flt (series_std np overall_scores) (Fin 10))),
                            (''decisive_winner'',
                               PNumpyBool (fgt score_diff (series_std np overall_scores))),
                            (''score_difference'', PFloat score_diff)])))"

text \<open>
  \<^verbatim>\<open>calculate_confidence_interval\<close>. The score is whatever the parsed JSON holds: a number
  is used as a float (an integer too large for a float raises), any other object raises
  a type error. The square root makes the margin and both bounds numpy floats, the score
  stays a Python number. \<^verbatim>\<open>max(0, x)\<close> and \<^verbatim>\<open>min(100, x)\<close> return the integer bound
  unless \<open>x\<close> is strictly inside.
\<close>

fun as_float :: "pyval \<Rightarrow> error + pyfloat" where
  "as_float (PInt n) =
     (case rnd (real_of_int n) of Fin a \<Rightarrow> Inr (Fin a) | _ \<Rightarrow> Inl OverflowError)"
| "as_float (PBool b) = Inr (Fin (if b then 1 else 0))"
| "as_float (PFloat x) = Inr x"
| "as_float _ = Inl TypeError"

fun round_score :: "pyval \<Rightarrow> pyval" where
  "round_score (PFloat x) = PFloat (py_round 1 x)"
| "round_score (PBool b) = PInt (if b then 1 else 0)"
| "round_score v = v"

definition calculate_confidence_interval :: "pyval \<Rightarrow> nat \<Rightarrow> real \<Rightarrow> error + pyval" where
  "calculate_confidence_interval score sample_size confidence =
     ebind (as_float score) (\<lambda>s.
       let p = fdiv s (Fin 100) in
       if sample_size = 0 then Inl ZeroDivisionError
       else
         let se = fsqrt (fdiv (fmul p (fsub (Fin 1) p)) (Fin (real sample_size)));
             z = (if confidence = 95 / 100 then rnd (196 / 100)
                  else if confidence = 99 / 100 then rnd (2576 / 1000) else rnd (1645 / 1000));
             margin = fmul (fmul z se) (Fin 100);
             lower_bound = fsub s margin;
             upper_bound = fadd s margin
         in Inr (PDict [(''score'', round_score score),
                        (''lower_bound'',
                           if fgt lower_bound (Fin 0) then PFloat (np_round 1 lower_bound) else PInt 0),
                        (''upper_bound'',
                           if flt upper_bound (Fin 100) then PFloat (np_round 1 upper_bound) else PInt 100),
                        (''margin_of_error'', PFloat (np_round 1 margin))]))"

text \<open>
  \<^verbatim>\<open>validate_channel_data\<close>. The normalisation of the topic distribution, with its
  conversion back to a list of records, is a pandas computation that no property below
  depends on; it is the parameter \<open>topic_records\<close>.
\<close>

fun require_fields :: "string list \<Rightarrow> pyval \<Rightarrow> error + unit" where
  "require_fields [] channel_data = Inr ()"
| "require_fields (field # others) channel_data =
     ebind (py_contains field channel_data) (\<lambda>present.
       if \<not> present then Inl (ValueError (''Missing required field: '' @ field))
       else require_fields others channel_data)"

definition py_get :: "pyval \<Rightarrow> string \<Rightarrow> pyval" where
  "py_get v k = (case v of PDict d \<Rightarrow> dict_get d k PNone | _ \<Rightarrow> PNone)"

definition attach_growth ::
  "(pyval \<Rightarrow> real option) \<Rightarrow> numpy \<Rightarrow> pyval \<Rightarrow> error + pyval" where
  "attach_growth to_numeric np channel_data =
     ebind (py_contains ''growthTimeline'' channel_data) (\<lambda>present.
       if \<not> present then Inr channel_data
       else
         ebind (py_getitem channel_data ''growthTimeline'') (\<lambda>growth_timeline.
         ebind (create_growth_dataframe to_numeric growth_timeline) (\<lambda>df.
           let growth_stats = calculate_growth_rate np df in
           ebind (py_setitem channel_data ''growthStatistics'' growth_stats) (\<lambda>channel_data.
           ebind (calculate_trend_prediction np df 1) (\<lambda>trend_pred.
             if truthy (py_get trend_pred ''prediction_available'')
             then py_setitem channel_data ''trendPrediction'' trend_pred
             else Inr channel_data)))))"

definition normalize_topics :: "(pyval \<Rightarrow> error + pyval) \<Rightarrow> pyval \<Rightarrow> error + pyval" where
  "normalize_topics topic_records channel_data =
     ebind (py_contains ''topicAnalysis'' channel_data) (\<lambda>present.
       if \<not> present then Inr channel_data
       else
         ebind (py_getitem channel_data ''topicAnalysis'') (\<lambda>topic_analysis.
         ebind (py_contains ''topicDistribution'' topic_analysis) (\<lambda>present.
           if \<not> present then Inr channel_data
           else
             ebind (py_getitem topic_analysis ''topicDistribution'') (\<lambda>topics.
             ebind (topic_records topics) (\<lambda>records.
             ebind (py_setitem topic_analysis ''topicDistribution'' records) (\<lambda>topic_analysis.
               py_setitem channel_data ''topicAnalysis'' topic_analysis))))))"

definition validate_channel_data ::
  "(pyval \<Rightarrow> real option) \<Rightarrow> (pyval \<Rightarrow> error + pyval) \<Rightarrow> numpy \<Rightarrow> pyval \<Rightarrow> error + pyval" where
  "validate_channel_data to_numeric topic_records np channel_data =
     ebind (require_fields [''channelName'', ''stats'', ''growthTimeline''] channel_data) (\<lambda>_.
     ebind (attach_growth to_numeric np channel_data) (\<lambda>channel_data.
       normalize_topics topic_records channel_data))"

section \<open>The services\<close>

text \<open>
  What lies outside the process is a parameter. A request to the generative model is the
  data its prompt is formatted from; the model's answer may depend on the request and on
  the number of earlier invocations, and is either an exception (of the call or of reading
  the answer's text) or the text with the web sources of its grounding chunks, each a title
  and a URI. The embed-info endpoint answers a video URL with a network failure or with a
  response: its success flag and the outcome of decoding its body.
\<close>

datatype request =
    ChannelPrompt string
  | BattlePrompt "string list" "pyval list"
  | TruthPrompt string string pyval pyval

record response =
  response_text :: string
  grounding_chunks :: "(string \<times> string) option list"

datatype http_result = NetworkFailure | HttpResponse bool "error + pyval"

record env =
  loads_of :: "string \<Rightarrow> error + pyval"
  to_numeric_of :: "pyval \<Rightarrow> real option"
  topic_records_of :: "pyval \<Rightarrow> error + pyval"
  numpy_of :: numpy
  generate_of :: "nat \<Rightarrow> request \<Rightarrow> error + response"
  oembed_of :: "string \<Rightarrow> http_result"

text \<open>
  The state of the process: the module-level dictionary \<^verbatim>\<open>cache\<close> and the number of
  invocations of the model made so far.
\<close>

record state =
  cache :: "(string \<times> pyval) list"
  calls :: nat

subsection \<open>Video identifier and metadata\<close>

definition id_char :: "char \<Rightarrow> bool" where
  "id_char c =
     (let n = (of_char c :: nat) in
      (48 \<le> n \<and> n \<le> 57) \<or> (65 \<le> n \<and> n \<le> 90) \<or> (97 \<le> n \<and> n \<le> 122) \<or>
      c = CHR ''_'' \<or> c = CHR ''-'')"

text \<open>
  An alternation of literal prefixes followed by the group of eleven identifier
  characters, anchored at the head of \<open>s\<close>; the alternatives are tried in their order.
\<close>

fun match_id :: "string list \<Rightarrow> string \<Rightarrow> string option" where
  "match_id [] s = None"
| "match_id (p # ps) s =
     (let r = drop (length p) s in
      if prefix p s \<and> length r \<ge> 11 \<and> list_all id_char (take 11 r) then Some (take 11 r)
      else match_id ps s)"

definition extract_video_id :: "string \<Rightarrow> string option" where
  "extract_video_id url =
     (case re_search (match_id [''youtube.com/watch?v='', ''youtu.be/'', ''youtube.com/embed/'',
                                ''youtube.com/v/'']) url of
        Some g \<Rightarrow> Some g
      | None \<Rightarrow> re_search (match_id [''youtube.com/shorts/'']) url)"

record metadata =
  title :: pyval
  author :: pyval

text \<open>
  \<^verbatim>\<open>fetch_video_metadata\<close>: every exception inside it (the network, the decoding of the
  body, a body that is no dictionary) is caught and gives \<^verbatim>\<open>None\<close>.
\<close>

definition fetch_video_metadata :: "env \<Rightarrow> string \<Rightarrow> metadata option" where
  "fetch_video_metadata E video_url =
     (case oembed_of E video_url of
        NetworkFailure \<Rightarrow> None
      | HttpResponse ok body \<Rightarrow>
          if \<not> ok then None
          else
            (case body of
               Inr (PDict data) \<Rightarrow>
                 Some \<lparr>title = dict_get data ''title'' (PStr ''Unknown Title''),
                       author = dict_get data ''author_name'' (PStr ''Unknown Creator'')\<rparr>
             | _ \<Rightarrow> None))"

subsection \<open>Grounding sources\<close>

definition collect_sources :: "response \<Rightarrow> (string \<times> string) list" where
  "collect_sources response = List.map_filter (\<lambda>web. web) (grounding_chunks response)"

fun unique_sources :: "string list \<Rightarrow> (string \<times> string) list \<Rightarrow> (string \<times> string) list" where
  "unique_sources seen_uris [] = []"
| "unique_sources seen_uris (source # sources) =
     (if snd source \<in> set seen_uris then unique_sources seen_uris sources
      else source # unique_sources (snd source # seen_uris) sources)"

definition source_value :: "string \<times> string \<Rightarrow> pyval" where
  "source_value source = PDict [(''title'', PStr (fst source)), (''uri'', PStr (snd source))]"

definition sources_of :: "response \<Rightarrow> pyval" where
  "sources_of response = PList (map source_value (unique_sources [] (collect_sources response)))"

subsection \<open>Channel analysis\<close>

definition analyze_channel :: "env \<Rightarrow> state \<Rightarrow> string \<Rightarrow> (error + pyval) \<times> state" where
  "analyze_channel E st channel_name =
     (let cache_key = ''channel:'' @ lower channel_name in
      case map_of (cache st) cache_key of
        Some cached \<Rightarrow> (Inr cached, st)
      | None \<Rightarrow>
          let st1 = st\<lparr>calls := Suc (calls st)\<rparr> in
          (case generate_of E (calls st) (ChannelPrompt channel_name) of
             Inl e \<Rightarrow> (Inl e, st1)
           | Inr response \<Rightarrow>
               (case ebind (extract_json (loads_of E) (response_text response)) (\<lambda>channel_data.
                     ebind (validate_channel_data (to_numeric_of E) (topic_records_of E) (numpy_of E)
                              channel_data)
                       (\<lambda>channel_data. py_setitem channel_data ''sources'' (sources_of response))) of
                  Inl e \<Rightarrow> (Inl e, st1)
                | Inr channel_data \<Rightarrow>
                    (Inr channel_data,
                     st1\<lparr>cache := AList.update cache_key channel_data (cache st1)\<rparr>))))"

subsection \<open>Battle\<close>

text \<open>
  The list comprehension over the names: a name that is no string has no method
  \<^verbatim>\<open>lower\<close>; the first failing analysis ends the battle.
\<close>

fun analyze_all :: "env \<Rightarrow> state \<Rightarrow> pyval list \<Rightarrow> (error + pyval list) \<times> state" where
  "analyze_all E st [] = (Inr [], st)"
| "analyze_all E st (name # names) =
     (case name of
        PStr channel_name \<Rightarrow>
          (case analyze_channel E st channel_name of
             (Inl e, st1) \<Rightarrow> (Inl e, st1)
           | (Inr channel, st1) \<Rightarrow>
               (case analyze_all E st1 names of
                  (Inl e, st2) \<Rightarrow> (Inl e, st2)
                | (Inr channels, st2) \<Rightarrow> (Inr (channel # channels), st2)))
      | _ \<Rightarrow> (Inl AttributeError, st))"

fun getitems :: "string \<Rightarrow> pyval list \<Rightarrow> error + pyval list" where
  "getitems k [] = Inr []"
| "getitems k (c # cs) =
     ebind (py_getitem c k) (\<lambda>v. ebind (getitems k cs) (\<lambda>vs. Inr (v # vs)))"

text \<open>The items handed to \<^verbatim>\<open>', '.join\<close> must all be strings.\<close>

fun joinable :: "pyval list \<Rightarrow> error + string list" where
  "joinable [] = Inr []"
| "joinable (PStr s # vs) = ebind (joinable vs) (\<lambda>ss. Inr (s # ss))"
| "joinable (_ # vs) = Inl TypeError"

definition run_battle :: "env \<Rightarrow> state \<Rightarrow> pyval list \<Rightarrow> (error + pyval) \<times> state" where
  "run_battle E st channel_names =
     (case analyze_all E st channel_names of
        (Inl e, st1) \<Rightarrow> (Inl e, st1)
      | (Inr channels, st1) \<Rightarrow>
          (case ebind (getitems ''channelName'' channels) joinable of
             Inl e \<Rightarrow> (Inl e, st1)
           | Inr names \<Rightarrow>
               let st2 = st1\<lparr>calls := Suc (calls st1)\<rparr> in
               (case generate_of E (calls st1) (BattlePrompt names channels) of
                  Inl e \<Rightarrow> (Inl e, st2)
                | Inr response \<Rightarrow>
                    (ebind (extract_json (loads_of E) (response_text response)) (\<lambda>synthesis.
                     ebind (py_getitem synthesis ''scores'') (\<lambda>scores.
                     ebind (pd_DataFrame scores) (\<lambda>scores_df.
                     ebind (calculate_battle_statistics (numpy_of E) scores_df) (\<lambda>battle_stats.
                     ebind (py_getitem synthesis ''verdict'') (\<lambda>verdict.
                       Inr (PDict [(''channels'', PList channels),
                                   (''scores'', scores),
                                   (''verdict'', verdict),
                                   (''statistics'', battle_stats)])))))),
                     st2))))"

subsection \<open>The battle endpoint of the HTTP layer\<close>

datatype http_reply = Ok pyval | BadRequest string | ServerError error

text \<open>
  \<^verbatim>\<open>jsonify\<close> serialises the result; its encoder knows the Python types and raises a type
  error on a \<^verbatim>\<open>numpy.bool_\<close>, wherever it sits in the result.
\<close>

fun json_serializable :: "pyval \<Rightarrow> bool" where
  "json_serializable (PNumpyBool b) = False"
| "json_serializable (PList xs) = list_all json_serializable xs"
| "json_serializable (PDict d) = list_all json_serializable (map snd d)"
| "json_serializable _ = True"

fun name_of_entry :: "pyval \<Rightarrow> error + pyval" where
  "name_of_entry (PDict d) = py_getitem (PDict d) ''channelName''"
| "name_of_entry ch = Inr ch"

fun names_of_entries :: "pyval list \<Rightarrow> error + pyval list" where
  "names_of_entries [] = Inr []"
| "names_of_entries (ch # chs) =
     ebind (name_of_entry ch) (\<lambda>n. ebind (names_of_entries chs) (\<lambda>ns. Inr (n # ns)))"

definition api_run_battle :: "env \<Rightarrow> state \<Rightarrow> pyval \<Rightarrow> http_reply \<times> state" where
  "api_run_battle E st data =
     (case data of
        PDict d \<Rightarrow>
          (case dict_get d ''channels'' PNone of
             PList channels \<Rightarrow>
               if channels = [] then (BadRequest ''Channels array is required'', st)
               else if length channels < 2 \<or> length channels > 5
               then (BadRequest ''Please provide 2-5 channels'', st)
               else
                 (case names_of_entries channels of
                    Inl e \<Rightarrow> (ServerError e, st)
                  | Inr channel_names \<Rightarrow>
                      (case run_battle E st channel_names of
                         (Inl e, st1) \<Rightarrow> (ServerError e, st1)
                       | (Inr result, st1) \<Rightarrow>
                           if json_serializable result then (Ok result, st1)
                           else (ServerError TypeError, st1)))
           | _ \<Rightarrow> (BadRequest ''Channels array is required'', st))
      | _ \<Rightarrow> (ServerError AttributeError, st))"

subsection \<open>Truth analysis\<close>

definition invalid_url :: error where
  "invalid_url = ValueError ''Please provide a valid YouTube URL (youtube.com or youtu.be link)''"

definition no_video_id :: error where
  "no_video_id =
     ValueError ''Could not extract video ID from URL. Please provide a valid YouTube link.''"

definition no_metadata :: error where
  "no_metadata =
     ValueError ''Could not fetch video information. The video may be private, deleted, or the URL is invalid.''"

definition attach_confidence :: "pyval \<Rightarrow> error + pyval" where
  "attach_confidence analysis =
     ebind (py_contains ''truthScore'' analysis) (\<lambda>present.
       if \<not> present then Inr analysis
       else
         ebind (py_getitem analysis ''truthScore'') (\<lambda>truth_score.
         ebind (calculate_confidence_interval truth_score 100 (95 / 100)) (\<lambda>confidence.
           py_setitem analysis ''scoreConfidence'' confidence)))"

definition analyze_video_truth :: "env \<Rightarrow> state \<Rightarrow> string \<Rightarrow> (error + pyval) \<times> state" where
  "analyze_video_truth E st video_input =
     (let is_url = (sublist ''youtube.com/'' (lower video_input) \<or>
                    sublist ''youtu.be/'' (lower video_input)) in
      if \<not> is_url then (Inl invalid_url, st)
      else
        (case extract_video_id video_input of
           None \<Rightarrow> (Inl no_video_id, st)
         | Some video_id \<Rightarrow>
             (case fetch_video_metadata E video_input of
                None \<Rightarrow> (Inl no_metadata, st)
              | Some metadata \<Rightarrow>
                  let st1 = st\<lparr>calls := Suc (calls st)\<rparr> in
                  (case generate_of E (calls st)
                          (TruthPrompt video_input video_id (title metadata) (author metadata)) of
                     Inl e \<Rightarrow> (Inl e, st1)
                   | Inr response \<Rightarrow>
                       (ebind (extract_json (loads_of E) (response_text response)) (\<lambda>analysis.
                        ebind (py_setitem analysis ''videoTitle'' (title metadata)) (\<lambda>analysis.
                        ebind (py_setitem analysis ''creatorName'' (author metadata)) (\<lambda>analysis.
                        ebind (attach_confidence analysis) (\<lambda>analysis.
                          py_setitem analysis ''references'' (sources_of response))))),
                        st1)))))"

section \<open>A reference environment for the examples\<close>

text \<open>
  The conversion of one cell, for the cells of the examples: an integer, a finite float
  and a string of decimal digits are numbers; \<^verbatim>\<open>None\<close>, a list and a dictionary are not.
\<close>

fun to_numeric_ref :: "pyval \<Rightarrow> real option" where
  "to_numeric_ref (PInt n) = Some (real_of_int n)"
| "to_numeric_ref (PFloat (Fin a)) = Some a"
| "to_numeric_ref (PStr s) =
     (if s \<noteq> [] \<and> list_all is_digit s then Some (real_of_int (digits_val s)) else None)"
| "to_numeric_ref _ = None"

text \<open>
  The numpy routines, for the examples. The sum adds from the left, starting from zero,
  which is what numpy does for fewer than eight numbers. The fit is the exact
  least-squares line through the points, its slope and its intercept rounded to floats;
  the coefficients numpy computes differ from these by the rounding errors of its solver.
\<close>

definition np_sum_ref :: "pyfloat list \<Rightarrow> pyfloat" where
  "np_sum_ref xs = foldl fadd (Fin 0) xs"

definition np_polyfit_ref :: "real list \<Rightarrow> real list \<Rightarrow> error + pyfloat \<times> pyfloat" where
  "np_polyfit_ref x y =
     (let n = real (length x);
          x_mean = sum_list x / n;
          y_mean = sum_list y / n;
          sxy = sum_list (map (\<lambda>(xi, yi). (xi - x_mean) * (yi - y_mean)) (zip x y));
          sxx = sum_list (map (\<lambda>xi. (xi - x_mean)\<^sup>2) x)
      in if sxx = 0 then Inl (Unmodelled ''fit through points of one abscissa'')
         else Inr (rnd (sxy / sxx), rnd (y_mean - sxy / sxx * x_mean)))"

definition numpy_ref :: numpy where
  "numpy_ref = \<lparr>sum_of = np_sum_ref, polyfit_of = np_polyfit_ref\<rparr>"

text \<open>
  A model that answers a channel request with a minimal report of that channel, a battle
  request with a synthesis that holds no score, and a truth request with an analysis that
  names another title.
\<close>

fun example_model :: "nat \<Rightarrow> request \<Rightarrow> error + response" where
  \<open>example_model n (ChannelPrompt channel_name) =
     Inr \<lparr>response_text =
            ''{"channelName": "'' @ channel_name @ ''", "stats": {}, "growthTimeline": []}'',
          grounding_chunks = []\<rparr>\<close>
| \<open>example_model n (BattlePrompt names channels) =
     Inr \<lparr>response_text = ''{"scores": [], "verdict": {"winner": "nobody"}}'',
          grounding_chunks = []\<rparr>\<close>
| \<open>example_model n (TruthPrompt video_input video_id t a) =
     Inr \<lparr>response_text = ''```json {"videoTitle": "Another title", "isFakingFacts": false} ```'',
          grounding_chunks = [Some (''Site'', ''https://example.org/a''), None,
                              Some (''Mirror'', ''https://example.org/a'')]\<rparr>\<close>

definition example_oembed :: "string \<Rightarrow> http_result" where
  "example_oembed url =
     HttpResponse True (Inr (PDict [(''title'', PStr ''Real title''), (''author_name'', PStr ''Real creator'')]))"

definition example_env :: env where
  "example_env =
     \<lparr>loads_of = json_loads,
      to_numeric_of = to_numeric_ref,
      topic_records_of = (\<lambda>topics. Inl (Unmodelled ''topic normalisation'')),
      numpy_of = numpy_ref,
      generate_of = example_model,
      oembed_of = example_oembed\<rparr>"

definition initial_state :: state where
  "initial_state = \<lparr>cache = [], calls = 0\<rparr>"

text \<open>The report the example model leads to for a channel, and the battle result.\<close>

definition example_report :: "string \<Rightarrow> pyval" where
  "example_report channel_name =
     PDict [(''channelName'', PStr channel_name),
            (''stats'', PDict []),
            (''growthTimeline'', PList []),
            (''growthStatistics'',
               PDict [(''avg_subscriber_growth'', PFloat (Fin 0)),
                      (''avg_video_growth'', PFloat (Fin 0)),
                      (''growth_trend'', PStr ''insufficient_data'')]),
            (''sources'', PList [])]"

definition example_battle :: "pyval list \<Rightarrow> pyval" where
  "example_battle channels =
     PDict [(''channels'', PList channels),
            (''scores'', PList []),
            (''verdict'', PDict [(''winner'', PStr ''nobody'')]),
            (''statistics'', PDict [(''statistical_analysis'', PStr ''insufficient_data'')])]"

section \<open>The salvage strategies as the specification words them\<close>

text \<open>
  The four candidates of a text, in the order of the strategies: the trimmed text itself,
  the object of the first fence labelled \<^verbatim>\<open>json\<close>, the object of the first fence of any
  kind, and the span from the first opening brace to the last closing one. A strategy
  that finds nothing has no candidate.
\<close>

definition strategies :: "string \<Rightarrow> string option list" where
  "strategies text =
     [Some (strip text),
      re_search (match_fence ''```json'') (strip text),
      re_search (match_fence ''```'') (strip text),
      brace_span (strip text)]"

text \<open>
  The first success wins: the candidates are parsed in their order, the value of the
  first one that parses is the result, a candidate that is no JSON passes to the next
  one, and when none is left the extraction fails. Nothing is merged. Any other
  exception of the parser ends the extraction at once.
\<close>

fun first_success :: "(string \<Rightarrow> error + 'j) \<Rightarrow> string option list \<Rightarrow> error + 'j" where
  "first_success loads [] = Inl parse_failure"
| "first_success loads (None # candidates) = first_success loads candidates"
| "first_success loads (Some candidate # candidates) =
     (case loads candidate of
        Inr v \<Rightarrow> Inr v
      | Inl JSONDecodeError \<Rightarrow> first_success loads candidates
      | Inl e \<Rightarrow> Inl e)"

text \<open>
  A text closes early when one of its closing braces is followed by optional white space
  and three backquotes: a fenced block whose object holds such a text ends there.
\<close>

fun closes_early :: "string \<Rightarrow> bool" where
  "closes_early [] = False"
| "closes_early (c # cs) =
     ((c = CHR ''}'' \<and> prefix ''```'' (dropWhile isspace cs)) \<or> closes_early cs)"

section \<open>The statistics as the specification words them\<close>

text \<open>
  The year-over-year percent change of every point but the first: the value over its
  predecessor, minus one, times one hundred, each step a float operation. A change is
  undefined (NaN) where both values are zero; the average is taken over the defined
  changes.
\<close>

definition yoy_changes :: "real list \<Rightarrow> pyfloat list" where
  "yoy_changes xs =
     map (\<lambda>(prev, cur). fmul (fsub (fdiv (rnd cur) (rnd prev)) (Fin 1)) (Fin 100)) (zip xs (tl xs))"

definition average_change :: "numpy \<Rightarrow> real list \<Rightarrow> pyfloat" where
  "average_change np xs = mean np (dropna (yoy_changes xs))"

text \<open>The trend classes, with strict thresholds.\<close>

definition growth_trend :: "pyfloat \<Rightarrow> string" where
  "growth_trend avg =
     (if fgt avg (Fin 10) then ''rapid_growth''
      else if fgt avg (Fin 0) then ''steady_growth''
      else if fgt avg (Fin (- 5)) then ''stable''
      else ''declining'')"

text \<open>
  The value of a line at an index; the coefficient of determination of a line over the
  points \<open>(0, y\<^sub>0), (1, y\<^sub>1), \<dots>\<close>: one minus the sum of the squared residuals over the sum
  of the squared deviations from the mean; the strength classes, with strict thresholds
  at the floats 0.7 and 0.4.
\<close>

definition line_value :: "pyfloat \<Rightarrow> pyfloat \<Rightarrow> nat \<Rightarrow> pyfloat" where
  "line_value slope intercept i = fadd (fmul slope (rnd (real i))) intercept"

definition residuals :: "pyfloat \<Rightarrow> pyfloat \<Rightarrow> real list \<Rightarrow> pyfloat list" where
  "residuals slope intercept ys =
     map (\<lambda>i. fsub (rnd (ys ! i)) (line_value slope intercept i)) [0 ..< length ys]"

definition deviations :: "numpy \<Rightarrow> real list \<Rightarrow> pyfloat list" where
  "deviations np ys = map (\<lambda>y. fsub (rnd y) (mean np (map rnd ys))) ys"

definition r_squared_of :: "numpy \<Rightarrow> pyfloat \<Rightarrow> pyfloat \<Rightarrow> real list \<Rightarrow> pyfloat" where
  "r_squared_of np slope intercept ys =
     fsub (Fin 1)
       (fdiv (sum_of np (map fsquare (residuals slope intercept ys)))
             (sum_of np (map fsquare (deviations np ys))))"

definition trend_strength :: "pyfloat \<Rightarrow> string" where
  "trend_strength r2 =
     (if fgt r2 (rnd (7 / 10)) then ''strong''
      else if fgt r2 (rnd (4 / 10)) then ''moderate'' else ''weak'')"

text \<open>Two sums agree on the short arrays: those of fewer than eight numbers.\<close>

definition same_short_sums :: "numpy \<Rightarrow> numpy \<Rightarrow> bool" where
  "same_short_sums np np' = (\<forall>xs. length xs < 8 \<longrightarrow> sum_of np xs = sum_of np' xs)"

text \<open>The timeline of the specification's example.\<close>

definition example_timeline :: "point list" where
  "example_timeline =
     [\<lparr>year = 2020, subscribers = 1000, videos = 10\<rparr>,
      \<lparr>year = 2021, subscribers = 1100, videos = 12\<rparr>,
      \<lparr>year = 2022, subscribers = 1210, videos = 14\<rparr>]"

section \<open>The battle as the specification words it\<close>

text \<open>
  One report per name, in turn: the first report is what \<^verbatim>\<open>analyze_channel\<close> returns for
  the first name in the given state, the second what it returns for the second name in
  the state the first analysis has left, and so on to the final state; every name is a
  string, and there are as many reports as names.
\<close>

fun reports_in_turn :: "env \<Rightarrow> state \<Rightarrow> pyval list \<Rightarrow> pyval list \<Rightarrow> state \<Rightarrow> bool" where
  "reports_in_turn E st [] [] st' = (st' = st)"
| "reports_in_turn E st (name # names) (channel # channels) st' =
     (\<exists>channel_name st1.
        name = PStr channel_name \<and>
        analyze_channel E st channel_name = (Inr channel, st1) \<and>
        reports_in_turn E st1 names channels st')"
| "reports_in_turn E st _ _ st' = False"

text \<open>The names a prompt lists: the string under \<^verbatim>\<open>channelName\<close> of every report.\<close>

definition names_of_reports :: "pyval list \<Rightarrow> string list \<Rightarrow> bool" where
  "names_of_reports channels names =
     list_all2 (\<lambda>channel n. py_getitem channel ''channelName'' = Inr (PStr n)) channels names"

section \<open>Properties of the JSON salvage extractor\<close>

lemma isspace_simps [simp]: "\<not> isspace CHR 0x60" "\<not> isspace CHR ''{''" "\<not> isspace CHR ''}''"
  by (simp_all add: isspace_def)

lemma dropWhile_all: "\<forall>c\<in>set ws. P c \<Longrightarrow> dropWhile P (ws @ ys) = dropWhile P ys"
  by (induction ws) auto

lemma strip_sandwich:
  assumes "m \<noteq> []" "\<not> isspace (hd m)" "\<not> isspace (last m)"
  shows "strip (a @ m @ b) = dropWhile isspace a @ m @ rev (dropWhile isspace (rev b))"
proof -
  obtain x m' where m: "m = x # m'" using assms(1) by (cases m) auto
  obtain m'' y where m2: "m = m'' @ [y]" using assms(1) by (cases m rule: rev_cases) auto
  have x: "\<not> isspace x" using assms(2) m by simp
  have y: "\<not> isspace y" using assms(3) m2 by simp
  have 1: "dropWhile isspace (a @ m @ b) = dropWhile isspace a @ m @ b"
    using x by (induction a) (auto simp: m)
  have 2: "dropWhile isspace (rev b @ rev m @ c) = dropWhile isspace (rev b) @ rev m @ c" for c
    using y by (induction "rev b" arbitrary: b) (auto simp: m2 dropWhile_append)
  show ?thesis
    unfolding strip_def 1 using 2[of "rev (dropWhile isspace a)"] by simp
qed

lemma re_search_skip:
  "(\<And>i. i < length pre \<Longrightarrow> m (drop i pre @ rest) = None) \<Longrightarrow>
   re_search m (pre @ rest) = re_search m rest"
proof (induction pre)
  case Nil
  then show ?case by simp
next
  case (Cons c pre)
  have "m ((c # pre) @ rest) = None" using Cons.prems[of 0] by simp
  moreover have "re_search m (pre @ rest) = re_search m rest"
  proof (rule Cons.IH)
    fix i assume "i < length pre"
    then show "m (drop i pre @ rest) = None" using Cons.prems[of "Suc i"] by simp
  qed
  ultimately show ?case by simp
qed

lemma re_search_hit: "m s = Some g \<Longrightarrow> re_search m s = Some g"
  by (cases s) auto

lemma no_fence_ahead:
  "\<not> prefix ''```'' (dropWhile isspace cs) \<Longrightarrow>
   \<not> prefix ''```'' (dropWhile isspace (cs @ CHR ''}'' # Y))"
proof (induction cs)
  case Nil
  then show ?case by simp
next
  case (Cons c cs)
  show ?case
  proof (cases "isspace c")
    case True
    then show ?thesis using Cons by simp
  next
    case False
    have "\<not> prefix ''```'' (c # cs @ CHR ''}'' # Y)"
    proof
      assume p: "prefix ''```'' (c # cs @ CHR ''}'' # Y)"
      then have "prefix ''```'' (c # cs)"
        by (cases cs; cases "tl cs"; cases "tl (tl cs)") auto
      moreover from False Cons.prems have "\<not> prefix ''```'' (c # cs)" by simp
      ultimately show False by blast
    qed
    with False show ?thesis by simp
  qed
qed

lemma brace_close_object:
  assumes "\<not> closes_early body" "\<forall>c\<in>set ws. isspace c"
  shows "brace_close (body @ CHR ''}'' # ws @ ''```'' @ X) = Some (body @ ''}'')"
  using assms(1)
proof (induction body)
  case Nil
  have "dropWhile isspace (ws @ ''```'' @ X) = ''```'' @ X"
    using assms(2) by (simp add: dropWhile_all)
  then show ?case by simp
next
  case (Cons c body)
  have nb: "\<not> closes_early body" using Cons.prems by simp
  have "c = CHR ''}'' \<Longrightarrow>
        \<not> prefix ''```'' (dropWhile isspace (body @ CHR ''}'' # ws @ ''```'' @ X))"
    using Cons.prems by (intro no_fence_ahead) simp
  then show ?case using Cons.IH[OF nb] by auto
qed

lemma match_fence_object:
  assumes "\<not> closes_early body" "\<forall>c\<in>set ws1. isspace c" "\<forall>c\<in>set ws2. isspace c"
  shows "match_fence opener (opener @ ws1 @ CHR ''{'' # body @ CHR ''}'' # ws2 @ ''```'' @ X)
         = Some (CHR ''{'' # body @ ''}'')"
proof -
  have "dropWhile isspace (ws1 @ CHR ''{'' # body @ CHR ''}'' # ws2 @ ''```'' @ X)
        = CHR ''{'' # body @ CHR ''}'' # ws2 @ ''```'' @ X"
    using assms(2) by (simp add: dropWhile_all)
  then show ?thesis
    using brace_close_object[OF assms(1,3), of X] by (simp add: match_fence_def)
qed

lemma sublist_prepend: "sublist xs ys \<Longrightarrow> sublist xs (ps @ ys)"
proof -
  assume "sublist xs ys"
  then obtain p q where "ys = p @ xs @ q" by (auto simp: sublist_def)
  then have "ps @ ys = (ps @ p) @ xs @ q" by simp
  then show ?thesis unfolding sublist_def by blast
qed

lemma first_opener:
  assumes "\<not> sublist opener (pre @ butlast opener)" "opener \<noteq> []" "i < length pre"
  shows "match_fence opener (drop i pre @ opener @ rest) = None"
proof -
  have "\<not> prefix opener (drop i pre @ opener @ rest)"
  proof
    assume p: "prefix opener (drop i pre @ opener @ rest)"
    have eq: "drop i pre @ opener @ rest = (drop i pre @ butlast opener) @ last opener # rest"
      using assms(2) by simp
    have "length opener = Suc (length (butlast opener))"
      using assms(2) by (cases opener rule: rev_cases) simp_all
    then have len: "length opener \<le> length (drop i pre @ butlast opener)"
      using assms(3) by simp
    have q: "prefix (drop i pre @ butlast opener) (drop i pre @ opener @ rest)"
      unfolding eq by simp
    have "prefix opener (drop i pre @ butlast opener)"
      by (rule prefix_length_prefix[OF p q len])
    then have "sublist opener (drop i pre @ butlast opener)"
      by (rule prefix_imp_sublist)
    then have "sublist opener (take i pre @ drop i pre @ butlast opener)"
      by (rule sublist_prepend)
    then show False using assms(1) by (simp flip: append_assoc)
  qed
  then show ?thesis by (simp add: match_fence_def)
qed

lemma extract_json_first_success:
  assumes "text \<noteq> []"
  shows "extract_json loads text = first_success loads (strategies text)"
  using assms
  by (simp add: extract_json_def strategies_def patterns_def Let_def
           split: sum.splits error.splits option.splits)

lemma labelled_fence_found:
  assumes shape: "text = pre @ ''```json'' @ ws1 @ obj @ ws2 @ ''```'' @ post"
    and ws: "\<forall>c\<in>set ws1. isspace c" "\<forall>c\<in>set ws2. isspace c"
    and obj: "obj = CHR ''{'' # body @ ''}''"
    and body: "\<not> closes_early body"
    and first: "\<not> sublist ''```json'' (pre @ ''```jso'')"
  shows "re_search (match_fence ''```json'') (strip text) = Some obj"
proof -
  define pre' where "pre' = dropWhile isspace pre"
  define post' where "post' = rev (dropWhile isspace (rev post))"
  define mid where "mid = ''```json'' @ ws1 @ obj @ ws2 @ ''```''"
  have mid: "mid \<noteq> []" "\<not> isspace (hd mid)" "\<not> isspace (last mid)"
    by (simp_all add: mid_def)
  have "text = pre @ mid @ post" by (simp add: shape mid_def)
  then have clean: "strip text = pre' @ mid @ post'"
    using strip_sandwich[OF mid] by (simp add: pre'_def post'_def)
  have rest: "mid @ post' = ''```json'' @ ws1 @ CHR ''{'' # body @ CHR ''}'' # ws2 @ ''```'' @ post'"
    by (simp add: mid_def obj)
  obtain k where k: "pre' = drop k pre"
    unfolding pre'_def using dropWhile_eq_drop[of isspace pre] by blast
  have first': "\<not> sublist ''```json'' (pre' @ butlast ''```json'')"
  proof
    assume "sublist ''```json'' (pre' @ butlast ''```json'')"
    then have "sublist ''```json'' (pre' @ ''```jso'')" by simp
    then have "sublist ''```json'' (take k pre @ pre' @ ''```jso'')"
      by (rule sublist_prepend)
    then show False using first by (simp add: k flip: append_assoc)
  qed
  have skip: "re_search (match_fence ''```json'') (pre' @ mid @ post')
              = re_search (match_fence ''```json'') (mid @ post')"
  proof (rule re_search_skip)
    fix i assume "i < length pre'"
    then show "match_fence ''```json'' (drop i pre' @ mid @ post') = None"
      using first_opener[OF first', of i "ws1 @ obj @ ws2 @ ''```'' @ post'"]
      by (simp add: mid_def)
  qed
  have hit: "re_search (match_fence ''```json'') (mid @ post') = Some obj"
    unfolding rest
    by (rule re_search_hit) (use match_fence_object[OF body ws, of "''```json''" post'] in \<open>simp add: obj\<close>)
  show ?thesis by (simp only: clean skip hit)
qed

lemma strategy_order_examples:
  \<open>extract_json json_loads ''{"a": "```json {} ```"}'' = Inr (PDict [(''a'', PStr ''```json {} ```'')])\<close>
  \<open>extract_json json_loads ''``` {"u": 1} ``` ```json {"l": 2} ```'' = Inr (PDict [(''l'', PInt 2)])\<close>
  \<open>extract_json json_loads ''x {"a": "``` {} ```"}'' = Inr (PDict [])\<close>
  \<open>extract_json json_loads ''see {"a": 1} ok'' = Inr (PDict [(''a'', PInt 1)])\<close>
  by code_simp+

text \<open>
  Claim C1, as amended. For every parser \<open>loads\<close> and every non-empty text,
  \<^verbatim>\<open>extract_json\<close> returns the first success among four candidates tried in this order:
  the trimmed text, the object of the first fence labelled \<^verbatim>\<open>json\<close>, the object of the
  first fence of any kind, the span from the first opening to the last closing brace; a
  later candidate is parsed only when every earlier one is absent or no JSON, and nothing
  is merged. In particular, let the trimmed text not be valid JSON, and let the text hold a
  fence \<^verbatim>\<open>```json\<close>, white space, the text \<open>obj\<close> of a JSON object, white space, \<^verbatim>\<open>```\<close>,
  where the opener \<^verbatim>\<open>```json\<close> does not occur earlier in the text (this is the first
  labelled fence) and no closing brace inside the object is followed by optional white
  space and three backquotes (the block does not end inside the object). Then the result
  is exactly what the parser returns on \<open>obj\<close>. With the reference parser, four texts
  show the order: a valid JSON text that holds a labelled fence in a string is returned
  whole; a labelled fence wins over an unlabelled one that stands before it; an
  unlabelled fence wins over the brace span around it; the brace span is what remains.
\<close>

theorem extract_json_strategy_order:
  \<open>(text \<noteq> [] \<longrightarrow> extract_json loads text = first_success loads (strategies text)) \<and>
   (loads (strip text) = Inl JSONDecodeError \<and>
    text = pre @ ''```json'' @ ws1 @ obj @ ws2 @ ''```'' @ post \<and>
    (\<forall>c\<in>set ws1. isspace c) \<and> (\<forall>c\<in>set ws2. isspace c) \<and>
    obj = CHR ''{'' # body @ ''}'' \<and>
    \<not> closes_early body \<and>
    \<not> sublist ''```json'' (pre @ ''```jso'') \<and>
    loads obj = Inr v
    \<longrightarrow> extract_json loads text = Inr v) \<and>
   extract_json json_loads ''{"a": "```json {} ```"}'' = Inr (PDict [(''a'', PStr ''```json {} ```'')]) \<and>
   extract_json json_loads ''``` {"u": 1} ``` ```json {"l": 2} ```'' = Inr (PDict [(''l'', PInt 2)]) \<and>
   extract_json json_loads ''x {"a": "``` {} ```"}'' = Inr (PDict []) \<and>
   extract_json json_loads ''see {"a": 1} ok'' = Inr (PDict [(''a'', PInt 1)])\<close>
proof (intro conjI impI)
  assume "text \<noteq> []"
  then show "extract_json loads text = first_success loads (strategies text)"
    by (rule extract_json_first_success)
next
  assume h: \<open>loads (strip text) = Inl JSONDecodeError \<and>
    text = pre @ ''```json'' @ ws1 @ obj @ ws2 @ ''```'' @ post \<and>
    (\<forall>c\<in>set ws1. isspace c) \<and> (\<forall>c\<in>set ws2. isspace c) \<and>
    obj = CHR ''{'' # body @ ''}'' \<and>
    \<not> closes_early body \<and>
    \<not> sublist ''```json'' (pre @ ''```jso'') \<and>
    loads obj = Inr v\<close>
  from h have shape: "text = pre @ ''```json'' @ ws1 @ obj @ ws2 @ ''```'' @ post"
    and ws: "\<forall>c\<in>set ws1. isspace c" "\<forall>c\<in>set ws2. isspace c"
    and obj: "obj = CHR ''{'' # body @ ''}''"
    and body: "\<not> closes_early body"
    and first: "\<not> sublist ''```json'' (pre @ ''```jso'')"
    and whole: "loads (strip text) = Inl JSONDecodeError"
    and parsed: "loads obj = Inr v"
    by blast+
  have found: "re_search (match_fence ''```json'') (strip text) = Some obj"
    by (rule labelled_fence_found[OF shape ws obj body first])
  from h have "text \<noteq> []" by auto
  then have "extract_json loads text = first_success loads (strategies text)"
    by (rule extract_json_first_success)
  also have "\<dots> = Inr v"
    by (simp add: strategies_def whole found parsed)
  finally show "extract_json loads text = Inr v" .
qed (rule strategy_order_examples)+

text \<open>
  Witness for C1: a labelled fence inside prose, whose object holds three backquotes in a
  string, evaluated with the reference parser.
\<close>

theorem extract_json_strategy_order_witness:
  \<open>''Here: ```json {"a": "```"} ``` done'' \<noteq> [] \<and>
   extract_json json_loads ''Here: ```json {"a": "```"} ``` done''
     = first_success json_loads (strategies ''Here: ```json {"a": "```"} ``` done'') \<and>
   json_loads (strip ''Here: ```json {"a": "```"} ``` done'') = Inl JSONDecodeError \<and>
   \<not> closes_early ''"a": "```"'' \<and>
   \<not> sublist ''```json'' (''Here: '' @ ''```jso'') \<and>
   json_loads ''{"a": "```"}'' = Inr (PDict [(''a'', PStr ''```'')]) \<and>
   extract_json json_loads ''Here: ```json {"a": "```"} ``` done''
     = Inr (PDict [(''a'', PStr ''```'')])\<close>
proof -
  have whole: \<open>json_loads (strip ''Here: ```json {"a": "```"} ``` done'') = Inl JSONDecodeError\<close>
    by code_simp
  have parsed: \<open>json_loads ''{"a": "```"}'' = Inr (PDict [(''a'', PStr ''```'')])\<close>
    by code_simp
  have shape: \<open>''Here: ```json {"a": "```"} ``` done''
      = ''Here: '' @ ''```json'' @ '' '' @ ''{"a": "```"}'' @ '' '' @ ''```'' @ '' done''\<close>
    by simp
  have ws: "\<forall>c\<in>set '' ''. isspace c" by (simp add: isspace_def)
  have obj: \<open>''{"a": "```"}'' = CHR ''{'' # ''"a": "```"'' @ ''}''\<close> by simp
  have body: \<open>\<not> closes_early ''"a": "```"''\<close> by code_simp
  have first: \<open>\<not> sublist ''```json'' (''Here: '' @ ''```jso'')\<close> by code_simp
  have ne: \<open>''Here: ```json {"a": "```"} ``` done'' \<noteq> []\<close> by simp
  from extract_json_strategy_order[of \<open>''Here: ```json {"a": "```"} ``` done''\<close> json_loads
         \<open>''Here: ''\<close> \<open>'' ''\<close> \<open>''{"a": "```"}''\<close> \<open>'' ''\<close> \<open>'' done''\<close> \<open>''"a": "```"''\<close>
         \<open>PDict [(''a'', PStr ''```'')]\<close>]
  have 1: \<open>extract_json json_loads ''Here: ```json {"a": "```"} ``` done''
           = first_success json_loads (strategies ''Here: ```json {"a": "```"} ``` done'')\<close>
    and 2: \<open>extract_json json_loads ''Here: ```json {"a": "```"} ``` done''
           = Inr (PDict [(''a'', PStr ''```'')])\<close>
    using whole parsed shape ws obj body first ne by blast+
  show ?thesis
    using 1 2 whole parsed body first ne by blast
qed

text \<open>
  Counterexamples to C1 as stated, both with a text that is not valid JSON as a whole.
  The first text holds two labelled fences, the second of which holds the well-formed
  object \<^verbatim>\<open>{"a": 1}\<close>: the labelled pattern matches the first fence, whose content does
  not parse; the unlabelled pattern matches nowhere; the span from the first to the last
  brace does not parse. The call fails, so the object of the second fence is not returned.
  The second text holds one labelled fence with the well-formed object
  \<^verbatim>\<open>{"a": "}```"}\<close>, which closes early: the block ends at the brace inside the string, its
  content does not parse, and neither does the brace span. The call fails again.
\<close>

theorem extract_json_second_fence_counterexample:
  \<open>json_loads ''{"a": 1}'' = Inr (PDict [(''a'', PInt 1)]) \<and>
   json_loads (strip ''```json {oops} ``` ```json {"a": 1} ```'') = Inl JSONDecodeError \<and>
   extract_json json_loads ''```json {oops} ``` ```json {"a": 1} ```'' = Inl parse_failure \<and>
   json_loads ''{"a": "}```"}'' = Inr (PDict [(''a'', PStr ''}```'')]) \<and>
   closes_early ''"a": "}```"'' \<and>
   json_loads (strip ''```json {"a": "}```"} ``` }'') = Inl JSONDecodeError \<and>
   extract_json json_loads ''```json {"a": "}```"} ``` }'' = Inl parse_failure\<close>
  by code_simp

text \<open>
  A text without a brace span that is not valid JSON as a whole makes \<^verbatim>\<open>extract_json\<close>
  fail: neither pattern matches, and there is no span from a first opening brace to a
  later last closing brace.
\<close>

lemma has_brace_span_embed: "has_brace_span s \<Longrightarrow> has_brace_span (p @ s @ q)"
proof -
  assume "has_brace_span s"
  then obtain a b where "s = a @ CHR ''{'' # b" "CHR ''}'' \<in> set b"
    by (auto simp: has_brace_span_def)
  then have "p @ s @ q = (p @ a) @ CHR ''{'' # (b @ q)" "CHR ''}'' \<in> set (b @ q)" by simp_all
  then show ?thesis unfolding has_brace_span_def by blast
qed

lemma strip_embed: "\<exists>p q. s = p @ strip s @ q"
proof -
  define d where "d = dropWhile isspace s"
  have "rev (rev d) = rev (takeWhile isspace (rev d) @ dropWhile isspace (rev d))"
    by (simp only: takeWhile_dropWhile_id)
  then have "d = rev (dropWhile isspace (rev d)) @ rev (takeWhile isspace (rev d))"
    by (simp only: rev_append rev_rev_ident)
  then have "d = strip s @ rev (takeWhile isspace (rev d))"
    by (simp only: strip_def d_def)
  moreover have "s = takeWhile isspace s @ d" by (simp add: d_def)
  ultimately have "s = takeWhile isspace s @ strip s @ rev (takeWhile isspace (rev d))" by simp
  then show ?thesis by blast
qed

lemma brace_close_brace: "brace_close cs = Some g \<Longrightarrow> CHR ''}'' \<in> set cs"
  by (induction cs arbitrary: g) (auto split: if_splits)

lemma match_fence_span: "match_fence p s = Some g \<Longrightarrow> has_brace_span s"
proof -
  assume m: "match_fence p s = Some g"
  then obtain cs where d: "dropWhile isspace (drop (length p) s) = CHR ''{'' # cs"
    and b: "CHR ''}'' \<in> set cs"
    by (auto simp: match_fence_def split: if_splits list.splits dest: brace_close_brace)
  have "s = take (length p) s @ takeWhile isspace (drop (length p) s)
            @ dropWhile isspace (drop (length p) s)"
    by simp
  then have "s = (take (length p) s @ takeWhile isspace (drop (length p) s)) @ CHR ''{'' # cs"
    using d by simp
  with b show ?thesis unfolding has_brace_span_def by blast
qed

lemma re_search_suffix: "re_search m s = Some g \<Longrightarrow> \<exists>p q. s = p @ q \<and> m q = Some g"
proof (induction s)
  case Nil
  then show ?case by simp
next
  case (Cons c s)
  show ?case
  proof (cases "m (c # s)")
    case (Some g')
    with Cons.prems have "m (c # s) = Some g" by simp
    then have "c # s = [] @ (c # s) \<and> m (c # s) = Some g" by simp
    then show ?thesis by blast
  next
    case None
    with Cons.prems have "re_search m s = Some g" by simp
    with Cons.IH obtain p q where "s = p @ q" "m q = Some g" by blast
    then have "c # s = (c # p) @ q" by simp
    with \<open>m q = Some g\<close> show ?thesis by blast
  qed
qed

lemma find_char_split:
  "find_char x s = Some i \<Longrightarrow> i < length s \<and> s ! i = x"
  by (induction s arbitrary: i) (auto split: if_splits)

lemma brace_span_span: "brace_span s = Some sub \<Longrightarrow> has_brace_span s"
proof -
  assume "brace_span s = Some sub"
  then obtain f l where f: "find_char CHR ''{'' s = Some f"
    and l: "rfind_char CHR ''}'' s = Some l" and fl: "f < l"
    by (auto simp: brace_span_def split: option.splits if_splits)
  from find_char_split[OF f] have f': "f < length s" "s ! f = CHR ''{''" by simp_all
  from l obtain i where i: "find_char CHR ''}'' (rev s) = Some i" and li: "l = length s - 1 - i"
    by (auto simp: rfind_char_def)
  from find_char_split[OF i] have i': "i < length s" "rev s ! i = CHR ''}''" by simp_all
  then have l': "l < length s" "s ! l = CHR ''}''"
    using li by (simp_all add: rev_nth)
  have s: "s = take f s @ s ! f # drop (Suc f) s"
    using f'(1) by (simp add: id_take_nth_drop)
  have "drop (Suc f) s ! (l - Suc f) = s ! l"
    using fl l'(1) by simp
  moreover have "l - Suc f < length (drop (Suc f) s)"
    using fl l'(1) by simp
  ultimately have "s ! l \<in> set (drop (Suc f) s)"
    by (metis nth_mem)
  then have "CHR ''}'' \<in> set (drop (Suc f) s)" using l'(2) by simp
  moreover have "s = take f s @ CHR ''{'' # drop (Suc f) s" using s f'(2) by simp
  ultimately show ?thesis
    unfolding has_brace_span_def by blast
qed

lemma re_search_span: "re_search (match_fence p) s = Some g \<Longrightarrow> has_brace_span s"
proof -
  assume r: "re_search (match_fence p) s = Some g"
  obtain a q where s: "s = a @ q" and m: "match_fence p q = Some g"
    using re_search_suffix[OF r] by blast
  have "has_brace_span q" by (rule match_fence_span[OF m])
  then have "has_brace_span (a @ q @ [])" by (rule has_brace_span_embed)
  then show ?thesis unfolding s by simp
qed

lemma try_patterns_no_span:
  "\<not> has_brace_span s \<Longrightarrow> try_patterns loads ps s = Inr None"
proof (induction ps)
  case Nil
  show ?case by (simp only: try_patterns.simps)
next
  case (Cons p ps)
  have "re_search (match_fence p) s = None"
    using Cons.prems re_search_span[of p s] by (cases "re_search (match_fence p) s") auto
  moreover have "try_patterns loads ps s = Inr None"
    by (rule Cons.IH[OF Cons.prems])
  ultimately show ?case
    by (simp only: try_patterns.simps option.case)
qed

lemma extract_json_no_brace_span:
  assumes "text \<noteq> []" "loads (strip text) = Inl JSONDecodeError" "\<not> has_brace_span text"
  shows "extract_json loads text = Inl parse_failure"
proof -
  obtain p q where "text = p @ strip text @ q" using strip_embed by blast
  then have n: "\<not> has_brace_span (strip text)"
    using assms(3) has_brace_span_embed[of "strip text" p q] by auto
  have "brace_span (strip text) = None"
    using n brace_span_span[of "strip text"] by (cases "brace_span (strip text)") auto
  then show ?thesis
    using assms(1,2) try_patterns_no_span[OF n, of loads patterns]
    by (simp add: extract_json_def Let_def)
qed

text \<open>
  Claim C2 at the input \<^verbatim>\<open>5\<close>: the text holds no brace at all, is valid JSON and is not an
  object. The direct parse succeeds and its value, the integer 5, is returned; no error
  is raised, although the function is declared to return a dictionary and every later
  strategy only accepts a text that starts with a brace.
\<close>

theorem extract_json_returns_non_object:
  \<open>\<not> has_brace_span ''5'' \<and> extract_json json_loads ''5'' = Inr (PInt 5)\<close>
proof -
  have "\<not> has_brace_span ''5''"
    by (auto simp: has_brace_span_def Cons_eq_append_conv)
  moreover have \<open>extract_json json_loads ''5'' = Inr (PInt 5)\<close>
    by code_simp
  ultimately show ?thesis by simp
qed

section \<open>Properties of the services\<close>

lemma ebind_eq_Inr: "ebind m f = Inr y \<longleftrightarrow> (\<exists>x. m = Inr x \<and> f x = Inr y)"
  by (cases m) (simp_all add: ebind_def)

lemma py_setitem_Inr:
  "py_setitem v k x = Inr v' \<Longrightarrow> \<exists>d. v = PDict d \<and> v' = PDict (AList.update k x d)"
  by (cases v) auto

lemma py_getitem_Inr: "py_getitem v k = Inr x \<Longrightarrow> \<exists>d. v = PDict d \<and> map_of d k = Some x"
  by (cases v) (auto split: option.splits)

lemma py_getitem_setitem_same: "py_setitem v k x = Inr v' \<Longrightarrow> py_getitem v' k = Inr x"
  by (auto dest!: py_setitem_Inr simp: update_conv')

lemma py_getitem_setitem_other:
  "py_setitem v k x = Inr v' \<Longrightarrow> k' \<noteq> k \<Longrightarrow> py_getitem v' k' = py_getitem v k'"
  by (auto dest!: py_setitem_Inr simp: update_conv')

lemma attach_confidence_other:
  assumes "attach_confidence a = Inr a'" "k \<noteq> ''scoreConfidence''"
  shows "py_getitem a' k = py_getitem a k"
  using assms
  by (auto simp: attach_confidence_def ebind_eq_Inr split: if_splits
           dest: py_getitem_setitem_other)

text \<open>
  Claim C3. Whenever \<^verbatim>\<open>analyze_video_truth\<close> returns a report, the metadata fetch has
  succeeded, and the report's fields \<^verbatim>\<open>videoTitle\<close> and \<^verbatim>\<open>creatorName\<close> are the title and
  the author of that metadata, whatever the parsed answer of the model held for them. This
  holds for every parser, every model and every endpoint.
\<close>

theorem analyze_video_truth_title_creator:
  assumes "analyze_video_truth E st video_input = (Inr report, st')"
  shows "\<exists>m. fetch_video_metadata E video_input = Some m \<and>
             py_getitem report ''videoTitle'' = Inr (title m) \<and>
             py_getitem report ''creatorName'' = Inr (author m)"
proof -
  from assms obtain m response a1 a2 a3 a4 where
    m: "fetch_video_metadata E video_input = Some m"
    and s1: "py_setitem a1 ''videoTitle'' (title m) = Inr a2"
    and s2: "py_setitem a2 ''creatorName'' (author m) = Inr a3"
    and s3: "attach_confidence a3 = Inr a4"
    and s4: "py_setitem a4 ''references'' (sources_of response) = Inr report"
    by (auto simp: analyze_video_truth_def Let_def ebind_eq_Inr
             split: if_splits option.splits sum.splits)
  have t2: "py_getitem a2 ''videoTitle'' = Inr (title m)"
    by (rule py_getitem_setitem_same[OF s1])
  have t3: "py_getitem a3 ''videoTitle'' = Inr (title m)"
    using py_getitem_setitem_other[OF s2, of "''videoTitle''"] t2 by simp
  have c3: "py_getitem a3 ''creatorName'' = Inr (author m)"
    by (rule py_getitem_setitem_same[OF s2])
  have t4: "py_getitem a4 ''videoTitle'' = Inr (title m)"
    using attach_confidence_other[OF s3, of "''videoTitle''"] t3 by simp
  have c4: "py_getitem a4 ''creatorName'' = Inr (author m)"
    using attach_confidence_other[OF s3, of "''creatorName''"] c3 by simp
  have "py_getitem report ''videoTitle'' = Inr (title m)"
    using py_getitem_setitem_other[OF s4, of "''videoTitle''"] t4 by simp
  moreover have "py_getitem report ''creatorName'' = Inr (author m)"
    using py_getitem_setitem_other[OF s4, of "''creatorName''"] c4 by simp
  ultimately show ?thesis using m by blast
qed

text \<open>
  Claim C4, as amended. After a successful \<^verbatim>\<open>analyze_channel\<close> for a name, a call for a
  name that \<^verbatim>\<open>str.lower\<close> maps to the same string (the cache key is formed from the
  lower-cased name) returns the same report and leaves the state as it is: the cache is
  unchanged and the number of model invocations has not grown. Two spellings of a name
  that differ in letter case need not be equal under \<^verbatim>\<open>str.lower\<close>.
\<close>

theorem analyze_channel_cached_any_case:
  assumes "analyze_channel E st name1 = (Inr report, st')" and "lower name2 = lower name1"
  shows "analyze_channel E st' name2 = (Inr report, st')"
proof (cases "map_of (cache st) (''channel:'' @ lower name1)")
  case (Some cached)
  with assms(1) have "cached = report" "st' = st"
    by (simp_all add: analyze_channel_def)
  with Some assms(2) show ?thesis
    by (simp add: analyze_channel_def)
next
  case None
  with assms(1) have "map_of (cache st') (''channel:'' @ lower name1) = Some report"
    by (auto simp: analyze_channel_def Let_def update_conv' split: sum.splits)
  with assms(2) show ?thesis
    by (simp add: analyze_channel_def)
qed

lemma analyze_all_length:
  "analyze_all E st names = (Inr channels, st') \<Longrightarrow> length channels = length names"
proof (induction names arbitrary: st channels st')
  case Nil
  then show ?case by simp
next
  case (Cons name names)
  then show ?case
    by (auto split: pyval.splits prod.splits sum.splits)
qed

lemma analyze_all_reports:
  "analyze_all E st names = (Inr channels, st') \<Longrightarrow> reports_in_turn E st names channels st'"
proof (induction names arbitrary: st channels st')
  case Nil
  then show ?case by auto
next
  case (Cons name names)
  from Cons.prems obtain channel_name channel st1 channels' where
    n: "name = PStr channel_name"
    and a: "analyze_channel E st channel_name = (Inr channel, st1)"
    and r: "analyze_all E st1 names = (Inr channels', st')"
    and c: "channels = channel # channels'"
    by (auto split: pyval.splits prod.splits sum.splits)
  have "reports_in_turn E st1 names channels' st'" by (rule Cons.IH[OF r])
  with n a c show ?case by simp
qed

lemma joinable_Inr: "joinable vs = Inr names \<Longrightarrow> vs = map PStr names"
proof (induction vs arbitrary: names)
  case Nil
  then show ?case by simp
next
  case (Cons v vs)
  then show ?case by (cases v) (auto simp: ebind_eq_Inr)
qed

lemma getitems_names:
  "getitems k channels = Inr (map PStr names) \<Longrightarrow>
   list_all2 (\<lambda>channel n. py_getitem channel k = Inr (PStr n)) channels names"
proof (induction channels arbitrary: names)
  case Nil
  then show ?case by simp
next
  case (Cons c cs)
  then show ?case by (cases names) (auto simp: ebind_eq_Inr)
qed

text \<open>
  Claim C6, as amended. Whenever \<^verbatim>\<open>run_battle\<close> returns a result, its \<^verbatim>\<open>channels\<close> hold
  exactly one report per input name, in the order of the names: each is what
  \<^verbatim>\<open>analyze_channel\<close> returned for that name, in the state left by the analyses before
  it. The model was then asked once more, with the names found in these reports and the
  reports themselves, and the result's \<^verbatim>\<open>scores\<close> and \<^verbatim>\<open>verdict\<close> are the values under
  these keys in the JSON extracted from that answer, passed on as they are; the
  statistics are computed from these scores. The number of scores is not compared with
  the number of names.
\<close>

theorem run_battle_result:
  assumes "run_battle E st channel_names = (Inr result, st')"
  shows "\<exists>channels st1 names response synthesis scores verdict statistics.
           reports_in_turn E st channel_names channels st1 \<and>
           length channels = length channel_names \<and>
           names_of_reports channels names \<and>
           generate_of E (calls st1) (BattlePrompt names channels) = Inr response \<and>
           st' = st1\<lparr>calls := Suc (calls st1)\<rparr> \<and>
           extract_json (loads_of E) (response_text response) = Inr synthesis \<and>
           py_getitem synthesis ''scores'' = Inr scores \<and>
           py_getitem synthesis ''verdict'' = Inr verdict \<and>
           ebind (pd_DataFrame scores) (calculate_battle_statistics (numpy_of E)) = Inr statistics \<and>
           result = PDict [(''channels'', PList channels), (''scores'', scores),
                           (''verdict'', verdict), (''statistics'', statistics)]"
proof -
  from assms obtain channels st1 where a: "analyze_all E st channel_names = (Inr channels, st1)"
    by (auto simp: run_battle_def split: prod.splits sum.splits)
  from assms a obtain names where
    j: "ebind (getitems ''channelName'' channels) joinable = Inr names"
    by (auto simp: run_battle_def split: sum.splits)
  from assms a j obtain response where
    g: "generate_of E (calls st1) (BattlePrompt names channels) = Inr response"
    by (auto simp: run_battle_def Let_def split: sum.splits)
  from assms a j g have st': "st' = st1\<lparr>calls := Suc (calls st1)\<rparr>"
    and body: "ebind (extract_json (loads_of E) (response_text response)) (\<lambda>synthesis.
                 ebind (py_getitem synthesis ''scores'') (\<lambda>scores.
                 ebind (pd_DataFrame scores) (\<lambda>scores_df.
                 ebind (calculate_battle_statistics (numpy_of E) scores_df) (\<lambda>battle_stats.
                 ebind (py_getitem synthesis ''verdict'') (\<lambda>verdict.
                   Inr (PDict [(''channels'', PList channels),
                               (''scores'', scores),
                               (''verdict'', verdict),
                               (''statistics'', battle_stats)])))))) = Inr result"
    by (simp_all add: run_battle_def Let_def)
  from body obtain synthesis scores scores_df statistics verdict where
    e: "extract_json (loads_of E) (response_text response) = Inr synthesis"
    and s: "py_getitem synthesis ''scores'' = Inr scores"
    and d: "pd_DataFrame scores = Inr scores_df"
    and b: "calculate_battle_statistics (numpy_of E) scores_df = Inr statistics"
    and v: "py_getitem synthesis ''verdict'' = Inr verdict"
    and r: "result = PDict [(''channels'', PList channels), (''scores'', scores),
                            (''verdict'', verdict), (''statistics'', statistics)]"
    unfolding ebind_eq_Inr by blast
  have rep: "reports_in_turn E st channel_names channels st1"
    by (rule analyze_all_reports[OF a])
  have len: "length channels = length channel_names"
    by (rule analyze_all_length[OF a])
  from j obtain vs where gi: "getitems ''channelName'' channels = Inr vs" and jo: "joinable vs = Inr names"
    unfolding ebind_eq_Inr by blast
  have "names_of_reports channels names"
    unfolding names_of_reports_def
    using getitems_names[of "''channelName''" channels names] gi joinable_Inr[OF jo] by simp
  moreover have "ebind (pd_DataFrame scores) (calculate_battle_statistics (numpy_of E)) = Inr statistics"
    using d b by (simp add: ebind_def)
  ultimately show ?thesis
    using rep len g st' e s v r by blast
qed

text \<open>
  Claim C5, as amended. The size check is the one of the HTTP endpoint: a request whose
  \<^verbatim>\<open>channels\<close> list has one or six entries is answered with status 400 and the message
  \<^verbatim>\<open>Please provide 2-5 channels\<close>, and the state is untouched: \<^verbatim>\<open>run_battle\<close> is not called
  and no model invocation is made.
\<close>

theorem api_run_battle_rejects_size:
  assumes "dict_get d ''channels'' PNone = PList channels"
    and "length channels = 1 \<or> length channels = 6"
  shows "api_run_battle E st (PDict d) = (BadRequest ''Please provide 2-5 channels'', st)"
  using assms by (auto simp: api_run_battle_def)

text \<open>
  Witness for C3: the model answers with another title and no creator; the report carries
  the title and the creator of the endpoint.
\<close>

theorem analyze_video_truth_title_creator_witness:
  \<open>analyze_video_truth example_env initial_state ''https://youtu.be/dQw4w9WgXcQ''
     = (Inr (PDict [(''videoTitle'', PStr ''Real title''), (''isFakingFacts'', PBool False),
                    (''creatorName'', PStr ''Real creator''),
                    (''references'',
                       PList [PDict [(''title'', PStr ''Site''), (''uri'', PStr ''https://example.org/a'')]])]),
        \<lparr>cache = [], calls = 1\<rparr>) \<and>
   fetch_video_metadata example_env ''https://youtu.be/dQw4w9WgXcQ''
     = Some \<lparr>title = PStr ''Real title'', author = PStr ''Real creator''\<rparr> \<and>
   extract_json json_loads ''```json {"videoTitle": "Another title", "isFakingFacts": false} ```''
     = Inr (PDict [(''videoTitle'', PStr ''Another title''), (''isFakingFacts'', PBool False)])\<close>
proof -
  have run: \<open>analyze_video_truth example_env initial_state ''https://youtu.be/dQw4w9WgXcQ''
     = (Inr (PDict [(''videoTitle'', PStr ''Real title''), (''isFakingFacts'', PBool False),
                    (''creatorName'', PStr ''Real creator''),
                    (''references'',
                       PList [PDict [(''title'', PStr ''Site''), (''uri'', PStr ''https://example.org/a'')]])]),
        \<lparr>cache = [], calls = 1\<rparr>)\<close>
    by code_simp
  have meta: \<open>fetch_video_metadata example_env ''https://youtu.be/dQw4w9WgXcQ''
     = Some \<lparr>title = PStr ''Real title'', author = PStr ''Real creator''\<rparr>\<close>
    by code_simp
  have model: \<open>extract_json json_loads ''```json {"videoTitle": "Another title", "isFakingFacts": false} ```''
     = Inr (PDict [(''videoTitle'', PStr ''Another title''), (''isFakingFacts'', PBool False)])\<close>
    by code_simp
  from analyze_video_truth_title_creator[OF run] run meta model show ?thesis by simp
qed

text \<open>Witness for C4: a first call for MrBeast, a second one for MRBEAST.\<close>

theorem analyze_channel_cached_any_case_witness:
  \<open>analyze_channel example_env initial_state ''MrBeast''
     = (Inr (example_report ''MrBeast''),
        \<lparr>cache = [(''channel:mrbeast'', example_report ''MrBeast'')], calls = 1\<rparr>) \<and>
   lower ''MRBEAST'' = lower ''MrBeast'' \<and>
   analyze_channel example_env
       \<lparr>cache = [(''channel:mrbeast'', example_report ''MrBeast'')], calls = 1\<rparr> ''MRBEAST''
     = (Inr (example_report ''MrBeast''),
        \<lparr>cache = [(''channel:mrbeast'', example_report ''MrBeast'')], calls = 1\<rparr>)\<close>
proof -
  have run: \<open>analyze_channel example_env initial_state ''MrBeast''
     = (Inr (example_report ''MrBeast''),
        \<lparr>cache = [(''channel:mrbeast'', example_report ''MrBeast'')], calls = 1\<rparr>)\<close>
    by code_simp
  have same: \<open>lower ''MRBEAST'' = lower ''MrBeast''\<close>
    by code_simp
  from analyze_channel_cached_any_case[OF run same] run same show ?thesis by simp
qed

text \<open>
  Counterexample to C4 as stated: a first call for the name with a sharp s (code point
  0xDF), a second one for the same name in upper case, STRASSE. The two lower-cased names
  differ, so the second call finds no cache entry and invokes the model again.
\<close>

theorem analyze_channel_upper_case_counterexample:
  \<open>upper (''stra'' @ [CHR 0xDF] @ ''e'') = Some ''STRASSE'' \<and>
   lower (''stra'' @ [CHR 0xDF] @ ''e'') = ''stra'' @ [CHR 0xDF] @ ''e'' \<and>
   lower ''STRASSE'' = ''strasse'' \<and>
   analyze_channel example_env initial_state (''stra'' @ [CHR 0xDF] @ ''e'')
     = (Inr (example_report (''stra'' @ [CHR 0xDF] @ ''e'')),
        \<lparr>cache = [(''channel:stra'' @ [CHR 0xDF] @ ''e'', example_report (''stra'' @ [CHR 0xDF] @ ''e''))],
         calls = 1\<rparr>) \<and>
   analyze_channel example_env
       \<lparr>cache = [(''channel:stra'' @ [CHR 0xDF] @ ''e'', example_report (''stra'' @ [CHR 0xDF] @ ''e''))],
        calls = 1\<rparr> ''STRASSE''
     = (Inr (example_report ''STRASSE''),
        \<lparr>cache = [(''channel:stra'' @ [CHR 0xDF] @ ''e'', example_report (''stra'' @ [CHR 0xDF] @ ''e'')),
                  (''channel:strasse'', example_report ''STRASSE'')],
         calls = 2\<rparr>)\<close>
  by code_simp

text \<open>
  Counterexample to C5 as stated: \<^verbatim>\<open>run_battle\<close> with a single name checks no size. It
  analyses the channel, asks the model for the synthesis and returns a result, after two
  model invocations.
\<close>

theorem run_battle_single_name_counterexample:
  \<open>run_battle example_env initial_state [PStr ''a'']
     = (Inr (example_battle [example_report ''a'']),
        \<lparr>cache = [(''channel:a'', example_report ''a'')], calls = 2\<rparr>)\<close>
  by code_simp

text \<open>Witness for C5: a request with one channel name.\<close>

theorem api_run_battle_rejects_size_witness:
  \<open>api_run_battle example_env initial_state (PDict [(''channels'', PList [PStr ''a''])])
     = (BadRequest ''Please provide 2-5 channels'', initial_state)\<close>
proof -
  have c: \<open>dict_get [(''channels'', PList [PStr ''a''])] ''channels'' PNone = PList [PStr ''a'']\<close>
    by (simp add: dict_get_def)
  have l: \<open>length [PStr ''a''] = 1 \<or> length [PStr ''a''] = 6\<close> by simp
  show ?thesis by (rule api_run_battle_rejects_size[OF c l])
qed

text \<open>
  Counterexample to C6 as stated: for two names the model's synthesis holds an empty list
  of scores, and \<^verbatim>\<open>run_battle\<close> returns a result whose scores are that empty list.
\<close>

theorem run_battle_scores_counterexample:
  \<open>run_battle example_env initial_state [PStr ''a'', PStr ''B'']
     = (Inr (example_battle [example_report ''a'', example_report ''B'']),
        \<lparr>cache = [(''channel:a'', example_report ''a''), (''channel:b'', example_report ''B'')],
         calls = 3\<rparr>) \<and>
   py_getitem (example_battle [example_report ''a'', example_report ''B'']) ''scores'' = Inr (PList [])\<close>
  by code_simp

text \<open>Witness for C6: the battle of two names with the example model.\<close>

theorem run_battle_result_witness:
  \<open>run_battle example_env initial_state [PStr ''a'', PStr ''B'']
     = (Inr (example_battle [example_report ''a'', example_report ''B'']),
        \<lparr>cache = [(''channel:a'', example_report ''a''), (''channel:b'', example_report ''B'')],
         calls = 3\<rparr>) \<and>
   (\<exists>channels st1 names response synthesis scores verdict statistics.
      reports_in_turn example_env initial_state [PStr ''a'', PStr ''B''] channels st1 \<and>
      length channels = length [PStr ''a'', PStr ''B''] \<and>
      names_of_reports channels names \<and>
      generate_of example_env (calls st1) (BattlePrompt names channels) = Inr response \<and>
      \<lparr>cache = [(''channel:a'', example_report ''a''), (''channel:b'', example_report ''B'')],
       calls = 3\<rparr> = st1\<lparr>calls := Suc (calls st1)\<rparr> \<and>
      extract_json (loads_of example_env) (response_text response) = Inr synthesis \<and>
      py_getitem synthesis ''scores'' = Inr scores \<and>
      py_getitem synthesis ''verdict'' = Inr verdict \<and>
      ebind (pd_DataFrame scores) (calculate_battle_statistics (numpy_of example_env)) = Inr statistics \<and>
      example_battle [example_report ''a'', example_report ''B'']
        = PDict [(''channels'', PList channels), (''scores'', scores),
                 (''verdict'', verdict), (''statistics'', statistics)])\<close>
proof -
  have run: \<open>run_battle example_env initial_state [PStr ''a'', PStr ''B'']
     = (Inr (example_battle [example_report ''a'', example_report ''B'']),
        \<lparr>cache = [(''channel:a'', example_report ''a''), (''channel:b'', example_report ''B'')],
         calls = 3\<rparr>)\<close>
    by code_simp
  from run_battle_result[OF run] run show ?thesis by blast
qed

section \<open>Properties of the statistics module\<close>

lemma dropna_pct_change:
  "dropna (map (\<lambda>c. fmul c (Fin 100)) (pct_change xs)) = dropna (yoy_changes xs)"
  by (cases xs) (simp_all add: pct_change_def yoy_changes_def dropna_def comp_def case_prod_unfold)

lemma growth_rate_long:
  assumes "2 \<le> length df"
  shows "calculate_growth_rate np df =
         PDict [(''avg_subscriber_growth'', PFloat (np_round 2 (average_change np (map subscribers df)))),
                (''avg_video_growth'', PFloat (np_round 2 (average_change np (map videos df)))),
                (''growth_trend'', PStr (growth_trend (average_change np (map subscribers df)))),
                (''latest_subscribers'', PInt (py_int (subscribers (last df)))),
                (''latest_videos'', PInt (py_int (videos (last df))))]"
proof -
  have "\<not> length df < 2" using assms by simp
  then show ?thesis
    unfolding calculate_growth_rate_def Let_def dropna_pct_change average_change_def[symmetric]
      growth_trend_def[symmetric]
    by simp
qed

lemma average_change_same_sums:
  assumes "same_short_sums np np'" "length xs \<le> 8"
  shows "average_change np xs = average_change np' xs"
proof -
  have "length (dropna (yoy_changes xs)) \<le> length (yoy_changes xs)"
    by (simp add: dropna_def)
  also have "\<dots> \<le> length xs - 1" by (simp add: yoy_changes_def)
  finally have "length (dropna (yoy_changes xs)) < 8 \<or> xs = []"
    using assms(2) by (cases xs) auto
  then have "length (dropna (yoy_changes xs)) < 8"
    by (auto simp: yoy_changes_def dropna_def)
  with assms(1) show ?thesis
    by (simp add: average_change_def mean_def same_short_sums_def)
qed

lemma growth_rate_same_sums:
  assumes "same_short_sums np np'" "length df \<le> 8"
  shows "calculate_growth_rate np df = calculate_growth_rate np' df"
proof (cases "2 \<le> length df")
  case True
  have "average_change np (map subscribers df) = average_change np' (map subscribers df)"
       "average_change np (map videos df) = average_change np' (map videos df)"
    using assms by (simp_all add: average_change_same_sums)
  then show ?thesis
    by (simp add: growth_rate_long[OF True])
next
  case False
  then show ?thesis by (simp add: calculate_growth_rate_def)
qed

lemma example_growth:
  "calculate_growth_rate numpy_ref example_timeline =
     PDict [(''avg_subscriber_growth'', PFloat (Fin 10)),
            (''avg_video_growth'', PFloat (Fin (1289859080776581 / 70368744177664))),
            (''growth_trend'', PStr ''rapid_growth''),
            (''latest_subscribers'', PInt 1210),
            (''latest_videos'', PInt 14)]"
  by code_simp

lemma example_average:
  "average_change numpy_ref [1000, 1100, 1210] = Fin (5629499534213125 / 562949953421312)"
  by code_simp

text \<open>
  Claim C7, as amended. A timeline with fewer than two points gives the trend
  \<^verbatim>\<open>insufficient_data\<close> with both growth values zero. A timeline with at least two points
  gives the average year-over-year percent change of the subscribers and of the videos,
  each rounded to two decimals by \<^verbatim>\<open>np.round\<close>, the trend class of the unrounded
  subscriber average with the strict thresholds 10, 0 and -5, and the latest counts cut
  to integers. All of it is float arithmetic: the average runs over the changes of all
  points but the first, an undefined change (zero over zero) left out. On the example
  timeline the two changes are the float 10.000000000000009 each, and so is their
  average, whatever way numpy sums more than seven numbers: the reported subscriber
  average is 10.0, the trend is \<^verbatim>\<open>rapid_growth\<close>, and the latest subscriber count is 1210.
\<close>

theorem calculate_growth_rate_spec:
  "(length df < 2 \<longrightarrow>
      calculate_growth_rate np df =
        PDict [(''avg_subscriber_growth'', PFloat (Fin 0)), (''avg_video_growth'', PFloat (Fin 0)),
               (''growth_trend'', PStr ''insufficient_data'')]) \<and>
   (2 \<le> length df \<longrightarrow>
      calculate_growth_rate np df =
        PDict [(''avg_subscriber_growth'', PFloat (np_round 2 (average_change np (map subscribers df)))),
               (''avg_video_growth'', PFloat (np_round 2 (average_change np (map videos df)))),
               (''growth_trend'', PStr (growth_trend (average_change np (map subscribers df)))),
               (''latest_subscribers'', PInt (py_int (subscribers (last df)))),
               (''latest_videos'', PInt (py_int (videos (last df))))]) \<and>
   (same_short_sums np numpy_ref \<longrightarrow>
      average_change np [1000, 1100, 1210] = Fin (5629499534213125 / 562949953421312) \<and>
      calculate_growth_rate np example_timeline =
        PDict [(''avg_subscriber_growth'', PFloat (Fin 10)),
               (''avg_video_growth'', PFloat (Fin (1289859080776581 / 70368744177664))),
               (''growth_trend'', PStr ''rapid_growth''),
               (''latest_subscribers'', PInt 1210),
               (''latest_videos'', PInt 14)])"
proof (intro conjI impI)
  assume "length df < 2"
  then show "calculate_growth_rate np df =
        PDict [(''avg_subscriber_growth'', PFloat (Fin 0)), (''avg_video_growth'', PFloat (Fin 0)),
               (''growth_trend'', PStr ''insufficient_data'')]"
    by (simp add: calculate_growth_rate_def)
next
  assume "2 \<le> length df"
  then show "calculate_growth_rate np df =
        PDict [(''avg_subscriber_growth'', PFloat (np_round 2 (average_change np (map subscribers df)))),
               (''avg_video_growth'', PFloat (np_round 2 (average_change np (map videos df)))),
               (''growth_trend'', PStr (growth_trend (average_change np (map subscribers df)))),
               (''latest_subscribers'', PInt (py_int (subscribers (last df)))),
               (''latest_videos'', PInt (py_int (videos (last df))))]"
    by (rule growth_rate_long)
next
  assume same: "same_short_sums np numpy_ref"
  have "average_change np [1000, 1100, 1210] = average_change numpy_ref [1000, 1100, 1210]"
    by (rule average_change_same_sums[OF same]) simp
  then show "average_change np [1000, 1100, 1210] = Fin (5629499534213125 / 562949953421312)"
    by (simp only: example_average)
next
  assume same: "same_short_sums np numpy_ref"
  have "calculate_growth_rate np example_timeline = calculate_growth_rate numpy_ref example_timeline"
    by (rule growth_rate_same_sums[OF same]) (simp add: example_timeline_def)
  then show "calculate_growth_rate np example_timeline =
        PDict [(''avg_subscriber_growth'', PFloat (Fin 10)),
               (''avg_video_growth'', PFloat (Fin (1289859080776581 / 70368744177664))),
               (''growth_trend'', PStr ''rapid_growth''),
               (''latest_subscribers'', PInt 1210),
               (''latest_videos'', PInt 14)]"
    by (simp only: example_growth)
qed

lemma trend_line_residuals:
  "map (\<lambda>(yi, ti). fsquare (fsub (rnd yi) ti))
     (zip ys (map (\<lambda>xi. fadd (fmul slope (rnd xi)) intercept) (map real [0 ..< length ys])))
   = map fsquare (residuals slope intercept ys)"
  by (rule nth_equalityI) (simp_all add: residuals_def line_value_def)

lemma mean_deviations:
  "map (\<lambda>yi. fsquare (fsub (rnd yi) (mean np (map rnd ys)))) ys = map fsquare (deviations np ys)"
  by (simp add: deviations_def comp_def)

lemma trend_prediction_long:
  assumes "3 \<le> length df"
    and "polyfit_of np (map real [0 ..< length df]) (map subscribers df) = Inr (slope, intercept)"
  shows "calculate_trend_prediction np df 1 =
         ebind (float_to_int (line_value slope intercept (length df))) (\<lambda>predicted.
           Inr (PDict [(''prediction_available'', PBool True),
                       (''slope'', PFloat slope),
                       (''r_squared'', PFloat (r_squared_of np slope intercept (map subscribers df))),
                       (''trend_strength'',
                          PStr (trend_strength (r_squared_of np slope intercept (map subscribers df)))),
                       (''predicted_next_year'', PInt predicted)]))"
proof -
  define ys where "ys = map subscribers df"
  have len: "length df = length ys" by (simp add: ys_def)
  have short: "\<not> length ys < 3" using assms(1) len by simp
  have next_index: "map real [length ys ..< length ys + 1] = [real (length ys)]" by simp
  show ?thesis
    using assms(2) short
    unfolding calculate_trend_prediction_def Let_def ys_def[symmetric] len next_index
      trend_line_residuals mean_deviations
    by (simp add: ebind_def r_squared_of_def trend_strength_def line_value_def
             split: sum.splits)
qed

text \<open>
  Claim C8, as amended. A timeline with fewer than three points reports that no prediction
  is available. For a timeline with at least three points the line is the one
  \<^verbatim>\<open>np.polyfit\<close> returns for the subscribers against the indices 0, 1, 2 and so on. When
  that call raises, so does the function. Otherwise the report holds the slope of that
  line, its coefficient of determination computed in float arithmetic, the strength
  class of that coefficient with the strict thresholds 0.7 and 0.4, and the float value
  of the line at the next index with its fraction cut off, towards zero and not to the
  nearest integer; when that value is NaN or infinite, the conversion raises.
\<close>

theorem calculate_trend_prediction_spec:
  "(length df < 3 \<longrightarrow>
      calculate_trend_prediction np df 1 = Inr (PDict [(''prediction_available'', PBool False)])) \<and>
   (3 \<le> length df \<and>
    polyfit_of np (map real [0 ..< length df]) (map subscribers df) = Inl e \<longrightarrow>
      calculate_trend_prediction np df 1 = Inl e) \<and>
   (3 \<le> length df \<and>
    polyfit_of np (map real [0 ..< length df]) (map subscribers df) = Inr (slope, intercept) \<longrightarrow>
      calculate_trend_prediction np df 1 =
        ebind (float_to_int (line_value slope intercept (length df))) (\<lambda>predicted.
          Inr (PDict [(''prediction_available'', PBool True),
                      (''slope'', PFloat slope),
                      (''r_squared'', PFloat (r_squared_of np slope intercept (map subscribers df))),
                      (''trend_strength'',
                         PStr (trend_strength (r_squared_of np slope intercept (map subscribers df)))),
                      (''predicted_next_year'', PInt predicted)]))) \<and>
   float_to_int (Fin a) = Inr (if 0 \<le> a then \<lfloor>a\<rfloor> else \<lceil>a\<rceil>) \<and>
   float_to_int NaN = Inl (ValueError ''cannot convert float NaN to integer'') \<and>
   float_to_int PInf = Inl OverflowError \<and> float_to_int NInf = Inl OverflowError"
proof (intro conjI impI)
  assume "length df < 3"
  then show "calculate_trend_prediction np df 1 = Inr (PDict [(''prediction_available'', PBool False)])"
    by (simp add: calculate_trend_prediction_def)
next
  assume "3 \<le> length df \<and>
    polyfit_of np (map real [0 ..< length df]) (map subscribers df) = Inl e"
  then show "calculate_trend_prediction np df 1 = Inl e"
    by (simp add: calculate_trend_prediction_def ebind_def)
next
  assume h: "3 \<le> length df \<and>
    polyfit_of np (map real [0 ..< length df]) (map subscribers df) = Inr (slope, intercept)"
  from h have a: "3 \<le> length df" by simp
  from h have b: "polyfit_of np (map real [0 ..< length df]) (map subscribers df)
                  = Inr (slope, intercept)" by simp
  show "calculate_trend_prediction np df 1 =
        ebind (float_to_int (line_value slope intercept (length df))) (\<lambda>predicted.
          Inr (PDict [(''prediction_available'', PBool True),
                      (''slope'', PFloat slope),
                      (''r_squared'', PFloat (r_squared_of np slope intercept (map subscribers df))),
                      (''trend_strength'',
                         PStr (trend_strength (r_squared_of np slope intercept (map subscribers df)))),
                      (''predicted_next_year'', PInt predicted)]))"
    by (rule trend_prediction_long[OF a b])
qed (simp_all add: py_int_def)

lemma dict_rows_Some_iff: "dict_rows xs = Some rows \<longleftrightarrow> xs = map PDict rows"
proof (induction xs arbitrary: rows)
  case Nil
  then show ?case by auto
next
  case (Cons x xs)
  then show ?case by (cases x) auto
qed

lemma perm_of_dicts:
  assumes "mset ys = mset (map PDict rows1)"
  shows "\<exists>rows2. ys = map PDict rows2 \<and> mset rows2 = mset rows1"
proof -
  define un where "un = (\<lambda>v. case v of PDict d \<Rightarrow> d | _ \<Rightarrow> [])"
  have un: "un (PDict d) = d" for d by (simp add: un_def)
  have "set ys = set (map PDict rows1)" using assms by (rule mset_eq_setD)
  then have "\<forall>y\<in>set ys. \<exists>d. y = PDict d" by auto
  then have 1: "ys = map PDict (map un ys)"
    by (induction ys) (auto simp: un)
  have "mset (map un ys) = image_mset un (mset ys)" by simp
  also have "\<dots> = image_mset un (mset (map PDict rows1))" using assms by simp
  also have "\<dots> = mset rows1"
    by (simp add: image_mset.compositionality comp_def un)
  finally show ?thesis using 1 by blast
qed

lemma frame_columns_set: "set (frame_columns rows) = (\<Union>r\<in>set rows. fst ` set r)"
  by (auto simp: frame_columns_def)

lemma clean_row_cols: "set cols2 = set cols1 \<Longrightarrow> clean_row tn cols2 r = clean_row tn cols1 r"
  by (auto simp: clean_row_def list_all_iff split: option.splits)

lemma mset_map_filter: "mset xs = mset ys \<Longrightarrow> mset (List.map_filter f xs) = mset (List.map_filter f ys)"
  by (simp add: map_filter_def)

lemma filter_same_key:
  "distinct (map f xs) \<Longrightarrow> k \<in> set xs \<Longrightarrow> filter (\<lambda>x. f k = f x) xs = [k]"
proof (induction xs)
  case Nil
  then show ?case by simp
next
  case (Cons x xs)
  show ?case
  proof (cases "k = x")
    case True
    have "filter (\<lambda>y. f x = f y) xs = []"
      using Cons.prems(1) by (auto simp: filter_empty_conv)
    with True show ?thesis by simp
  next
    case False
    with Cons.prems have k: "k \<in> set xs" by simp
    have "f x \<notin> f ` set xs" using Cons.prems(1) by simp
    with k have "f k \<noteq> f x" by (metis imageI)
    with Cons.IH k Cons.prems(1) show ?thesis by simp
  qed
qed

lemma sort_key_perm_distinct:
  assumes "mset xs = mset ys" "distinct (map f (sort_key f ys))"
  shows "sort_key f xs = sort_key f ys"
proof -
  have a: "mset (sort_key f ys) = mset xs" using assms(1) by simp
  have c: "sorted (map f (sort_key f ys))" by simp
  have "mset (map f xs) = mset (map f (sort_key f ys))"
    using assms(1) by simp
  then have dx: "distinct (map f xs)"
    using assms(2) mset_eq_imp_distinct_iff by blast
  have b: "filter (\<lambda>x. f k = f x) (sort_key f ys) = filter (\<lambda>x. f k = f x) xs"
    if k: "k \<in> set (sort_key f ys)" for k
  proof -
    have "set xs = set ys" using assms(1) by (rule mset_eq_setD)
    with k have kx: "k \<in> set xs" by simp
    show ?thesis
      using filter_same_key[OF assms(2) k] filter_same_key[OF dx kx] by simp
  qed
  show ?thesis by (rule properties_for_sort_key[OF a b c])
qed

lemma create_growth_dataframe_perm:
  assumes perm: "mset tl2 = mset tl1"
    and df: "create_growth_dataframe tn (PList tl1) = Inr df"
    and dist: "distinct (map year df)"
  shows "create_growth_dataframe tn (PList tl2) = Inr df"
proof (cases "tl1 = []")
  case True
  with perm have "tl2 = []" by simp
  with True df show ?thesis by simp
next
  case False
  with perm have ne2: "tl2 \<noteq> []" by auto
  from df False obtain rows1 where r1: "tl1 = map PDict rows1"
    and k1: "''year'' \<in> set (frame_columns rows1)" "''subscribers'' \<in> set (frame_columns rows1)"
            "''videos'' \<in> set (frame_columns rows1)"
    and d1: "df = sort_key year (List.map_filter (clean_row tn (frame_columns rows1)) rows1)"
    by (auto simp: create_growth_dataframe_def pd_DataFrame_def ebind_eq_Inr Let_def dict_rows_Some_iff
             split: option.splits if_splits)
  from perm r1 obtain rows2 where r2: "tl2 = map PDict rows2" and m: "mset rows2 = mset rows1"
    using perm_of_dicts by blast
  have cols: "set (frame_columns rows2) = set (frame_columns rows1)"
    using mset_eq_setD[OF m] by (simp add: frame_columns_set)
  have cr: "clean_row tn (frame_columns rows2) = clean_row tn (frame_columns rows1)"
    using clean_row_cols[OF cols] by auto
  have "sort_key year (List.map_filter (clean_row tn (frame_columns rows1)) rows2)
        = sort_key year (List.map_filter (clean_row tn (frame_columns rows1)) rows1)"
  proof (rule sort_key_perm_distinct)
    show "mset (List.map_filter (clean_row tn (frame_columns rows1)) rows2)
          = mset (List.map_filter (clean_row tn (frame_columns rows1)) rows1)"
      by (rule mset_map_filter[OF m])
    show "distinct (map year (sort_key year (List.map_filter (clean_row tn (frame_columns rows1)) rows1)))"
      using dist unfolding d1 .
  qed
  then have s2: "sort_key year (List.map_filter (clean_row tn (frame_columns rows2)) rows2) = df"
    using cr d1 by simp
  have dr: "dict_rows tl2 = Some rows2"
    using r2 by (simp add: dict_rows_Some_iff)
  have k2: "''year'' \<in> set (frame_columns rows2)" "''subscribers'' \<in> set (frame_columns rows2)"
           "''videos'' \<in> set (frame_columns rows2)"
    using k1 cols by simp_all
  show ?thesis
    using ne2 dr k2 s2
    by (simp add: create_growth_dataframe_def pd_DataFrame_def ebind_def Let_def)
qed

lemma update_commute:
  "k \<in> fst ` set al \<Longrightarrow> k \<noteq> k' \<Longrightarrow>
   AList.update k v (AList.update k' v' al) = AList.update k' v' (AList.update k v al)"
  by (induction al) auto

lemma require_fields_dict:
  "require_fields fs (PDict (AList.update k v a)) = require_fields fs (PDict a)"
  if "k \<in> fst ` set a"
  using that by (induction fs) (auto simp: dom_update ebind_def)

lemma update_timeline_out:
  "''growthTimeline'' \<in> fst ` set al \<Longrightarrow> k \<noteq> ''growthTimeline'' \<Longrightarrow>
   AList.update k v (AList.update ''growthTimeline'' t al)
   = AList.update ''growthTimeline'' t (AList.update k v al)"
  by (rule update_commute[symmetric]) auto

lemma attach_growth_dict:
  assumes "map_of a ''growthTimeline'' = Some t"
  shows "attach_growth tn np (PDict a) =
         ebind (create_growth_dataframe tn t) (\<lambda>df.
         ebind (calculate_trend_prediction np df 1) (\<lambda>trend_pred.
           Inr (PDict (if truthy (py_get trend_pred ''prediction_available'')
                       then AList.update ''trendPrediction'' trend_pred
                              (AList.update ''growthStatistics'' (calculate_growth_rate np df) a)
                       else AList.update ''growthStatistics'' (calculate_growth_rate np df) a))))"
proof -
  have "''growthTimeline'' \<in> fst ` set a"
    using assms by (metis map_of_eq_None_iff option.distinct(1))
  then show ?thesis
    using assms
    by (cases "create_growth_dataframe tn t")
       (auto simp: attach_growth_def ebind_def Let_def split: sum.splits)
qed

lemma normalize_topics_swap:
  assumes "k \<in> fst ` set x" "k \<noteq> ''topicAnalysis''"
  shows "normalize_topics tr (PDict (AList.update k v x))
         = ebind (normalize_topics tr (PDict x)) (\<lambda>r. py_setitem r k v)"
proof (cases "map_of x ''topicAnalysis''")
  case None
  then have "''topicAnalysis'' \<notin> fst ` set x" by (simp add: map_of_eq_None_iff)
  with assms show ?thesis
    by (simp add: normalize_topics_def ebind_def dom_update)
next
  case (Some ta)
  then have "''topicAnalysis'' \<in> fst ` set x"
    by (metis map_of_eq_None_iff option.distinct(1))
  with assms Some show ?thesis
    by (auto simp: normalize_topics_def ebind_def dom_update update_conv' update_commute
             split: sum.splits dest!: py_setitem_Inr)
qed

lemma validate_timeline_swap:
  assumes "map_of a ''growthTimeline'' = Some t1"
    and "create_growth_dataframe tn t2 = create_growth_dataframe tn t1"
  shows "validate_channel_data tn tr np (PDict (AList.update ''growthTimeline'' t2 a))
         = ebind (validate_channel_data tn tr np (PDict a)) (\<lambda>r. py_setitem r ''growthTimeline'' t2)"
proof -
  have k: "''growthTimeline'' \<in> fst ` set a"
    using assms(1) by (metis map_of_eq_None_iff option.distinct(1))
  have m2: "map_of (AList.update ''growthTimeline'' t2 a) ''growthTimeline'' = Some t2"
    by (simp add: update_conv')
  have req: "require_fields fs (PDict (AList.update ''growthTimeline'' t2 a))
             = require_fields fs (PDict a)" for fs
    by (rule require_fields_dict[OF k])
  have step: "normalize_topics tr (PDict (if c then AList.update ''trendPrediction'' p
                                                (AList.update ''growthStatistics'' g
                                                  (AList.update ''growthTimeline'' t2 a))
                                          else AList.update ''growthStatistics'' g
                                                  (AList.update ''growthTimeline'' t2 a)))
        = ebind (normalize_topics tr (PDict (if c then AList.update ''trendPrediction'' p
                                                (AList.update ''growthStatistics'' g a)
                                             else AList.update ''growthStatistics'' g a)))
            (\<lambda>r. py_setitem r ''growthTimeline'' t2)" for c p g
  proof -
    have 1: "AList.update ''growthStatistics'' g (AList.update ''growthTimeline'' t2 a)
             = AList.update ''growthTimeline'' t2 (AList.update ''growthStatistics'' g a)"
      by (rule update_timeline_out[OF k]) simp
    have k1: "''growthTimeline'' \<in> fst ` set (AList.update ''growthStatistics'' g a)"
      using k by (simp add: dom_update)
    have 2: "AList.update ''trendPrediction'' p
               (AList.update ''growthTimeline'' t2 (AList.update ''growthStatistics'' g a))
             = AList.update ''growthTimeline'' t2
                 (AList.update ''trendPrediction'' p (AList.update ''growthStatistics'' g a))"
      by (rule update_timeline_out[OF k1]) simp
    have k2: "''growthTimeline'' \<in> fst ` set (AList.update ''trendPrediction'' p
                (AList.update ''growthStatistics'' g a))"
      using k1 by (simp add: dom_update)
    show ?thesis
    proof (cases c)
      case True
      then show ?thesis
        unfolding 1 2 using normalize_topics_swap[OF k2, of tr t2] by simp
    next
      case False
      then show ?thesis
        unfolding 1 using normalize_topics_swap[OF k1, of tr t2] by simp
    qed
  qed
  show ?thesis
    unfolding validate_channel_data_def req attach_growth_dict[OF assms(1)]
      attach_growth_dict[OF m2] assms(2)
    by (cases "require_fields [''channelName'', ''stats'', ''growthTimeline''] (PDict a)";
        cases "create_growth_dataframe tn t1")
       (simp_all add: ebind_def step del: require_fields.simps split: sum.splits)
qed


text \<open>
  Claim C9, as amended. Let the entries of a growth timeline be permuted, and let the years
  of the valid entries (the rows of the cleaned data frame) be pairwise distinct. Then
  \<^verbatim>\<open>validate_channel_data\<close> succeeds on the channel object with the permuted timeline as it
  does on the original one, and attaches the same growth statistics and the same trend
  prediction.
\<close>

theorem growth_statistics_permutation:
  assumes perm: "mset tl2 = mset tl1"
    and df: "create_growth_dataframe tn (PList tl1) = Inr df"
    and dist: "distinct (map year df)"
    and d1: "py_getitem d1 ''growthTimeline'' = Inr (PList tl1)"
    and d2: "py_setitem d1 ''growthTimeline'' (PList tl2) = Inr d2"
    and r1: "validate_channel_data tn tr np d1 = Inr r1"
  shows "\<exists>r2. validate_channel_data tn tr np d2 = Inr r2 \<and>
              py_getitem r2 ''growthStatistics'' = py_getitem r1 ''growthStatistics'' \<and>
              py_getitem r2 ''trendPrediction'' = py_getitem r1 ''trendPrediction''"
proof -
  from d1 obtain a where a: "d1 = PDict a" "map_of a ''growthTimeline'' = Some (PList tl1)"
    by (auto dest: py_getitem_Inr)
  from d2 a have d2': "d2 = PDict (AList.update ''growthTimeline'' (PList tl2) a)" by simp
  have same: "create_growth_dataframe tn (PList tl2) = create_growth_dataframe tn (PList tl1)"
    using create_growth_dataframe_perm[OF perm df dist] df by simp
  have "validate_channel_data tn tr np d2 = py_setitem r1 ''growthTimeline'' (PList tl2)"
    using validate_timeline_swap[OF a(2) same, of tr np] r1 a(1) d2' by (simp add: ebind_def)
  moreover obtain x where x: "r1 = PDict x"
  proof -
    from r1 a(1) obtain r where ag: "attach_growth tn np (PDict a) = Inr r"
      and nt: "normalize_topics tr r = Inr r1"
      by (auto simp: validate_channel_data_def ebind_eq_Inr)
    from ag obtain y where "r = PDict y"
      unfolding attach_growth_dict[OF a(2)] by (auto simp: ebind_eq_Inr)
    with nt show ?thesis
      using that
      by (auto simp: normalize_topics_def ebind_eq_Inr split: if_splits dest!: py_setitem_Inr)
  qed
  ultimately show ?thesis
    by (auto simp: update_conv')
qed


lemma py_contains_dict: "py_contains k (PDict d) = Inr (map_of d k \<noteq> None)"
  by (simp add: map_of_eq_None_iff)

lemma normalize_topics_other:
  assumes "normalize_topics tr cd = Inr cd'" "k \<noteq> ''topicAnalysis''"
  shows "py_getitem cd' k = py_getitem cd k"
  using assms
  by (auto simp: normalize_topics_def ebind_eq_Inr split: if_splits
           dest: py_getitem_setitem_other)

lemma short_frame_no_prediction:
  "length df < 3 \<Longrightarrow>
   calculate_trend_prediction np df 1 = Inr (PDict [(''prediction_available'', PBool False)])"
  by (simp add: calculate_trend_prediction_def)

lemma attach_growth_short:
  assumes "attach_growth tn np channel_data = Inr cd"
    and "py_getitem channel_data ''growthTimeline'' = Inr timeline"
    and "create_growth_dataframe tn timeline = Inr df" "length df < 3"
  shows "py_setitem channel_data ''growthStatistics'' (calculate_growth_rate np df) = Inr cd"
proof -
  from assms(2) obtain d where d: "channel_data = PDict d" "map_of d ''growthTimeline'' = Some timeline"
    by (auto dest: py_getitem_Inr)
  show ?thesis
    using assms(1,3) short_frame_no_prediction[OF assms(4)] d
    by (auto simp: attach_growth_def ebind_eq_Inr py_contains_dict Let_def py_get_def dict_get_def
             simp del: py_contains.simps split: if_splits)
qed

text \<open>
  Claim C10, as amended. When the cleaned growth timeline of a channel object has fewer than
  three points, the report of \<^verbatim>\<open>validate_channel_data\<close> holds the growth statistics of that
  timeline under \<^verbatim>\<open>growthStatistics\<close>, and no trend prediction is attached: the key
  \<^verbatim>\<open>trendPrediction\<close> is in the report exactly when the channel object came with it, with
  the value it came with; the marker of an unavailable prediction is never stored.
\<close>

theorem validate_channel_data_short_timeline:
  assumes "validate_channel_data tn tr np channel_data = Inr report"
    and "py_getitem channel_data ''growthTimeline'' = Inr timeline"
    and "create_growth_dataframe tn timeline = Inr df"
    and "length df < 3"
  shows "py_getitem report ''growthStatistics'' = Inr (calculate_growth_rate np df) \<and>
         py_getitem report ''trendPrediction'' = py_getitem channel_data ''trendPrediction''"
proof -
  from assms(1) obtain cd where
    a: "attach_growth tn np channel_data = Inr cd" and n: "normalize_topics tr cd = Inr report"
    by (auto simp: validate_channel_data_def ebind_eq_Inr)
  have s: "py_setitem channel_data ''growthStatistics'' (calculate_growth_rate np df) = Inr cd"
    by (rule attach_growth_short[OF a assms(2,3,4)])
  have "py_getitem cd ''growthStatistics'' = Inr (calculate_growth_rate np df)"
    by (rule py_getitem_setitem_same[OF s])
  moreover have "py_getitem cd ''trendPrediction'' = py_getitem channel_data ''trendPrediction''"
    by (rule py_getitem_setitem_other[OF s]) simp
  ultimately show ?thesis
    using normalize_topics_other[OF n, of "''growthStatistics''"]
          normalize_topics_other[OF n, of "''trendPrediction''"]
    by simp
qed

section \<open>Examples for the statistics module\<close>

text \<open>
  Witness for C7: the empty timeline for the short case, the example timeline for the long
  case, and the reference sum for the sum of numpy.
\<close>

theorem calculate_growth_rate_spec_witness:
  "length ([] :: point list) < 2 \<and>
   calculate_growth_rate numpy_ref [] =
     PDict [(''avg_subscriber_growth'', PFloat (Fin 0)), (''avg_video_growth'', PFloat (Fin 0)),
            (''growth_trend'', PStr ''insufficient_data'')] \<and>
   2 \<le> length example_timeline \<and>
   calculate_growth_rate numpy_ref example_timeline =
     PDict [(''avg_subscriber_growth'',
               PFloat (np_round 2 (average_change numpy_ref (map subscribers example_timeline)))),
            (''avg_video_growth'',
               PFloat (np_round 2 (average_change numpy_ref (map videos example_timeline)))),
            (''growth_trend'',
               PStr (growth_trend (average_change numpy_ref (map subscribers example_timeline)))),
            (''latest_subscribers'', PInt (py_int (subscribers (last example_timeline)))),
            (''latest_videos'', PInt (py_int (videos (last example_timeline))))] \<and>
   same_short_sums numpy_ref numpy_ref \<and>
   average_change numpy_ref [1000, 1100, 1210] = Fin (5629499534213125 / 562949953421312) \<and>
   calculate_growth_rate numpy_ref example_timeline =
     PDict [(''avg_subscriber_growth'', PFloat (Fin 10)),
            (''avg_video_growth'', PFloat (Fin (1289859080776581 / 70368744177664))),
            (''growth_trend'', PStr ''rapid_growth''),
            (''latest_subscribers'', PInt 1210),
            (''latest_videos'', PInt 14)]"
proof -
  have l: "2 \<le> length example_timeline" by (simp add: example_timeline_def)
  have s: "same_short_sums numpy_ref numpy_ref" by (simp add: same_short_sums_def)
  show ?thesis
    using calculate_growth_rate_spec[of "[]" numpy_ref]
          calculate_growth_rate_spec[of example_timeline numpy_ref] l s
    by simp
qed

text \<open>
  Counterexample to C7 as stated, on the claim's own example. Each of the two
  year-over-year changes is the float 10.000000000000009, and so is their average, which
  exceeds 10: the trend is \<^verbatim>\<open>rapid_growth\<close>, not \<^verbatim>\<open>steady_growth\<close>. The value returned under
  \<^verbatim>\<open>avg_subscriber_growth\<close> is 10.0, the average rounded to two decimals, not the average.
\<close>

theorem calculate_growth_rate_example_counterexample:
  \<open>py_getitem (calculate_growth_rate numpy_ref
                 [\<lparr>year = 2020, subscribers = 1000, videos = 10\<rparr>,
                  \<lparr>year = 2021, subscribers = 1100, videos = 12\<rparr>,
                  \<lparr>year = 2022, subscribers = 1210, videos = 14\<rparr>])
       ''growth_trend'' = Inr (PStr ''rapid_growth'') \<and>
   py_getitem (calculate_growth_rate numpy_ref
                 [\<lparr>year = 2020, subscribers = 1000, videos = 10\<rparr>,
                  \<lparr>year = 2021, subscribers = 1100, videos = 12\<rparr>,
                  \<lparr>year = 2022, subscribers = 1210, videos = 14\<rparr>])
       ''avg_subscriber_growth'' = Inr (PFloat (Fin 10)) \<and>
   yoy_changes [1000, 1100, 1210] =
     [Fin (5629499534213125 / 562949953421312), Fin (5629499534213125 / 562949953421312)] \<and>
   average_change numpy_ref [1000, 1100, 1210] = Fin (5629499534213125 / 562949953421312) \<and>
   (5629499534213125 / 562949953421312 :: real) > 10\<close>
  by code_simp

text \<open>
  Witness for C8: the empty timeline for the short case; the example timeline, with the
  reference fit, for the long case; a fit that raises for the failing case.
\<close>

theorem calculate_trend_prediction_spec_witness:
  "length ([] :: point list) < 3 \<and>
   calculate_trend_prediction numpy_ref [] 1 = Inr (PDict [(''prediction_available'', PBool False)]) \<and>
   3 \<le> length example_timeline \<and>
   polyfit_of (numpy_ref\<lparr>polyfit_of := \<lambda>x y. Inl (Unmodelled ''LinAlgError'')\<rparr>)
       (map real [0 ..< length example_timeline]) (map subscribers example_timeline)
     = Inl (Unmodelled ''LinAlgError'') \<and>
   calculate_trend_prediction (numpy_ref\<lparr>polyfit_of := \<lambda>x y. Inl (Unmodelled ''LinAlgError'')\<rparr>)
       example_timeline 1
     = Inl (Unmodelled ''LinAlgError'') \<and>
   polyfit_of numpy_ref (map real [0 ..< length example_timeline]) (map subscribers example_timeline)
     = Inr (Fin 105, rnd (2995 / 3)) \<and>
   calculate_trend_prediction numpy_ref example_timeline 1 =
     ebind (float_to_int (line_value (Fin 105) (rnd (2995 / 3)) (length example_timeline)))
       (\<lambda>predicted.
          Inr (PDict [(''prediction_available'', PBool True),
                      (''slope'', PFloat (Fin 105)),
                      (''r_squared'',
                         PFloat (r_squared_of numpy_ref (Fin 105) (rnd (2995 / 3))
                                   (map subscribers example_timeline))),
                      (''trend_strength'',
                         PStr (trend_strength (r_squared_of numpy_ref (Fin 105) (rnd (2995 / 3))
                                                 (map subscribers example_timeline)))),
                      (''predicted_next_year'', PInt predicted)])) \<and>
   float_to_int (Fin (- 5 / 2)) = Inr (if 0 \<le> (- 5 / 2 :: real) then \<lfloor>- 5 / 2 :: real\<rfloor> else \<lceil>- 5 / 2 :: real\<rceil>)"
proof -
  have l: "3 \<le> length example_timeline" by (simp add: example_timeline_def)
  have f: "polyfit_of numpy_ref (map real [0 ..< length example_timeline])
             (map subscribers example_timeline) = Inr (Fin 105, rnd (2995 / 3))"
    by code_simp
  have g: "polyfit_of (numpy_ref\<lparr>polyfit_of := \<lambda>x y. Inl (Unmodelled ''LinAlgError'')\<rparr>)
             (map real [0 ..< length example_timeline]) (map subscribers example_timeline)
           = Inl (Unmodelled ''LinAlgError'')"
    by simp
  show ?thesis
    using calculate_trend_prediction_spec[of "[]" numpy_ref]
          calculate_trend_prediction_spec[of example_timeline numpy_ref _ "Fin 105" "rnd (2995 / 3)" "- 5 / 2"]
          calculate_trend_prediction_spec[of example_timeline
             "numpy_ref\<lparr>polyfit_of := \<lambda>x y. Inl (Unmodelled ''LinAlgError'')\<rparr>"
             "Unmodelled ''LinAlgError''"]
          l f g
    by simp
qed

text \<open>
  Counterexample to C8 as stated: for the subscriber counts 0, 0, 2 the line has slope 1
  and the float nearest to minus one third as intercept, so its float value at the next
  index is 2.6666666666666665, whose nearest integer is 3; the reported prediction is 2.
\<close>

theorem calculate_trend_prediction_truncates_counterexample:
  \<open>calculate_trend_prediction numpy_ref
       [\<lparr>year = 2020, subscribers = 0, videos = 1\<rparr>,
        \<lparr>year = 2021, subscribers = 0, videos = 1\<rparr>,
        \<lparr>year = 2022, subscribers = 2, videos = 1\<rparr>] 1
     = Inr (PDict [(''prediction_available'', PBool True), (''slope'', PFloat (Fin 1)),
                   (''r_squared'', PFloat (Fin (3 / 4))), (''trend_strength'', PStr ''strong''),
                   (''predicted_next_year'', PInt 2)]) \<and>
   polyfit_of numpy_ref [0, 1, 2] [0, 0, 2] = Inr (Fin 1, rnd (- 1 / 3)) \<and>
   line_value (Fin 1) (rnd (- 1 / 3)) 3 = Fin (6004799503160661 / 2251799813685248) \<and>
   round (6004799503160661 / 2251799813685248 :: real) = (3 :: int)\<close>
  by code_simp

text \<open>
  Witness for C9: the three entries of the example timeline, with their years as strings, in
  two orders; both reports carry a trend prediction.
\<close>

theorem growth_statistics_permutation_witness:
  \<open>\<exists>r1 r2.
     validate_channel_data to_numeric_ref (topic_records_of example_env) numpy_ref
       (PDict [(''channelName'', PStr ''a''), (''stats'', PDict []),
               (''growthTimeline'',
                  PList [PDict [(''year'', PStr ''2020''), (''subscribers'', PInt 1000), (''videos'', PInt 10)],
                         PDict [(''year'', PStr ''2021''), (''subscribers'', PInt 1100), (''videos'', PInt 12)],
                         PDict [(''year'', PStr ''2022''), (''subscribers'', PInt 1210), (''videos'', PInt 14)]])])
       = Inr r1 \<and>
     validate_channel_data to_numeric_ref (topic_records_of example_env) numpy_ref
       (PDict [(''channelName'', PStr ''a''), (''stats'', PDict []),
               (''growthTimeline'',
                  PList [PDict [(''year'', PStr ''2021''), (''subscribers'', PInt 1100), (''videos'', PInt 12)],
                         PDict [(''year'', PStr ''2022''), (''subscribers'', PInt 1210), (''videos'', PInt 14)],
                         PDict [(''year'', PStr ''2020''), (''subscribers'', PInt 1000), (''videos'', PInt 10)]])])
       = Inr r2 \<and>
     py_getitem r2 ''growthStatistics'' = py_getitem r1 ''growthStatistics'' \<and>
     py_getitem r2 ''trendPrediction'' = py_getitem r1 ''trendPrediction'' \<and>
     py_getitem r1 ''trendPrediction'' \<noteq> Inl (KeyError ''trendPrediction'')\<close>
proof -
  let ?e0 = \<open>PDict [(''year'', PStr ''2020''), (''subscribers'', PInt 1000), (''videos'', PInt 10)]\<close>
  let ?e1 = \<open>PDict [(''year'', PStr ''2021''), (''subscribers'', PInt 1100), (''videos'', PInt 12)]\<close>
  let ?e2 = \<open>PDict [(''year'', PStr ''2022''), (''subscribers'', PInt 1210), (''videos'', PInt 14)]\<close>
  let ?d1 = \<open>PDict [(''channelName'', PStr ''a''), (''stats'', PDict []),
                     (''growthTimeline'', PList [?e0, ?e1, ?e2])]\<close>
  let ?d2 = \<open>PDict [(''channelName'', PStr ''a''), (''stats'', PDict []),
                     (''growthTimeline'', PList [?e1, ?e2, ?e0])]\<close>
  have perm: \<open>mset [?e1, ?e2, ?e0] = mset [?e0, ?e1, ?e2]\<close>
    by (simp add: add_mset_commute)
  have df: \<open>create_growth_dataframe to_numeric_ref (PList [?e0, ?e1, ?e2]) = Inr example_timeline\<close>
    by code_simp
  have dist: \<open>distinct (map year example_timeline)\<close>
    by code_simp
  have get: \<open>py_getitem ?d1 ''growthTimeline'' = Inr (PList [?e0, ?e1, ?e2])\<close> by simp
  have set: \<open>py_setitem ?d1 ''growthTimeline'' (PList [?e1, ?e2, ?e0]) = Inr ?d2\<close> by simp
  have ok: \<open>\<not> isl (validate_channel_data to_numeric_ref (topic_records_of example_env) numpy_ref ?d1)\<close>
    by code_simp
  then obtain r1 where r1: \<open>validate_channel_data to_numeric_ref (topic_records_of example_env) numpy_ref ?d1 = Inr r1\<close>
    by (cases \<open>validate_channel_data to_numeric_ref (topic_records_of example_env) numpy_ref ?d1\<close>) auto
  have pred: \<open>ebind (validate_channel_data to_numeric_ref (topic_records_of example_env) numpy_ref ?d1)
                 (\<lambda>r. py_getitem r ''trendPrediction'') \<noteq> Inl (KeyError ''trendPrediction'')\<close>
    by code_simp
  from growth_statistics_permutation[OF perm df dist get set r1] r1 pred show ?thesis
    by (auto simp: ebind_def)
qed

text \<open>
  Counterexample to C9 as stated: two entries of the same year, in both orders. The rows
  keep the order of the input, so the one year-over-year change is plus one hundred
  percent in one order and minus fifty percent in the other, and the attached statistics
  differ.
\<close>

theorem growth_statistics_equal_years_counterexample:
  \<open>validate_channel_data to_numeric_ref (topic_records_of example_env) numpy_ref
     (PDict [(''channelName'', PStr ''a''), (''stats'', PDict []),
             (''growthTimeline'',
                PList [PDict [(''year'', PInt 2020), (''subscribers'', PInt 100), (''videos'', PInt 1)],
                       PDict [(''year'', PInt 2020), (''subscribers'', PInt 200), (''videos'', PInt 1)]])])
   = Inr (PDict [(''channelName'', PStr ''a''), (''stats'', PDict []),
             (''growthTimeline'',
                PList [PDict [(''year'', PInt 2020), (''subscribers'', PInt 100), (''videos'', PInt 1)],
                       PDict [(''year'', PInt 2020), (''subscribers'', PInt 200), (''videos'', PInt 1)]]),
             (''growthStatistics'',
                PDict [(''avg_subscriber_growth'', PFloat (Fin 100)), (''avg_video_growth'', PFloat (Fin 0)),
                       (''growth_trend'', PStr ''rapid_growth''), (''latest_subscribers'', PInt 200),
                       (''latest_videos'', PInt 1)])]) \<and>
   validate_channel_data to_numeric_ref (topic_records_of example_env) numpy_ref
     (PDict [(''channelName'', PStr ''a''), (''stats'', PDict []),
             (''growthTimeline'',
                PList [PDict [(''year'', PInt 2020), (''subscribers'', PInt 200), (''videos'', PInt 1)],
                       PDict [(''year'', PInt 2020), (''subscribers'', PInt 100), (''videos'', PInt 1)]])])
   = Inr (PDict [(''channelName'', PStr ''a''), (''stats'', PDict []),
             (''growthTimeline'',
                PList [PDict [(''year'', PInt 2020), (''subscribers'', PInt 200), (''videos'', PInt 1)],
                       PDict [(''year'', PInt 2020), (''subscribers'', PInt 100), (''videos'', PInt 1)]]),
             (''growthStatistics'',
                PDict [(''avg_subscriber_growth'', PFloat (Fin (- 50))), (''avg_video_growth'', PFloat (Fin 0)),
                       (''growth_trend'', PStr ''declining''), (''latest_subscribers'', PInt 100),
                       (''latest_videos'', PInt 1)])])\<close>
  by code_simp

text \<open>
  Witness for C10: three entries of which one has a year that is no number; two points
  remain, the statistics are attached, and the report has no key \<^verbatim>\<open>trendPrediction\<close>, as
  the channel object had none.
\<close>

theorem validate_channel_data_short_timeline_witness:
  \<open>validate_channel_data to_numeric_ref (topic_records_of example_env) numpy_ref
     (PDict [(''channelName'', PStr ''a''), (''stats'', PDict []),
             (''growthTimeline'',
                PList [PDict [(''year'', PStr ''2020''), (''subscribers'', PInt 100), (''videos'', PInt 1)],
                       PDict [(''year'', PStr ''2021''), (''subscribers'', PInt 150), (''videos'', PInt 2)],
                       PDict [(''year'', PStr ''unknown''), (''subscribers'', PInt 175), (''videos'', PInt 3)]])])
   = Inr (PDict [(''channelName'', PStr ''a''), (''stats'', PDict []),
             (''growthTimeline'',
                PList [PDict [(''year'', PStr ''2020''), (''subscribers'', PInt 100), (''videos'', PInt 1)],
                       PDict [(''year'', PStr ''2021''), (''subscribers'', PInt 150), (''videos'', PInt 2)],
                       PDict [(''year'', PStr ''unknown''), (''subscribers'', PInt 175), (''videos'', PInt 3)]]),
             (''growthStatistics'',
                PDict [(''avg_subscriber_growth'', PFloat (Fin 50)), (''avg_video_growth'', PFloat (Fin 100)),
                       (''growth_trend'', PStr ''rapid_growth''), (''latest_subscribers'', PInt 150),
                       (''latest_videos'', PInt 2)])]) \<and>
   py_getitem
     (PDict [(''channelName'', PStr ''a''), (''stats'', PDict []),
             (''growthTimeline'',
                PList [PDict [(''year'', PStr ''2020''), (''subscribers'', PInt 100), (''videos'', PInt 1)],
                       PDict [(''year'', PStr ''2021''), (''subscribers'', PInt 150), (''videos'', PInt 2)],
                       PDict [(''year'', PStr ''unknown''), (''subscribers'', PInt 175), (''videos'', PInt 3)]]),
             (''growthStatistics'',
                PDict [(''avg_subscriber_growth'', PFloat (Fin 50)), (''avg_video_growth'', PFloat (Fin 100)),
                       (''growth_trend'', PStr ''rapid_growth''), (''latest_subscribers'', PInt 150),
                       (''latest_videos'', PInt 2)])]) ''trendPrediction''
   = Inl (KeyError ''trendPrediction'')\<close>
proof -
  let ?tl = \<open>PList [PDict [(''year'', PStr ''2020''), (''subscribers'', PInt 100), (''videos'', PInt 1)],
                       PDict [(''year'', PStr ''2021''), (''subscribers'', PInt 150), (''videos'', PInt 2)],
                       PDict [(''year'', PStr ''unknown''), (''subscribers'', PInt 175), (''videos'', PInt 3)]]\<close>
  let ?d = \<open>PDict [(''channelName'', PStr ''a''), (''stats'', PDict []), (''growthTimeline'', ?tl)]\<close>
  let ?df = \<open>[\<lparr>year = 2020, subscribers = 100, videos = 1\<rparr>, \<lparr>year = 2021, subscribers = 150, videos = 2\<rparr>]\<close>
  let ?r = \<open>PDict [(''channelName'', PStr ''a''), (''stats'', PDict []), (''growthTimeline'', ?tl),
             (''growthStatistics'',
                PDict [(''avg_subscriber_growth'', PFloat (Fin 50)), (''avg_video_growth'', PFloat (Fin 100)),
                       (''growth_trend'', PStr ''rapid_growth''), (''latest_subscribers'', PInt 150),
                       (''latest_videos'', PInt 2)])]\<close>
  have run: \<open>validate_channel_data to_numeric_ref (topic_records_of example_env) numpy_ref ?d = Inr ?r\<close>
    by code_simp
  have get: \<open>py_getitem ?d ''growthTimeline'' = Inr ?tl\<close> by simp
  have df: \<open>create_growth_dataframe to_numeric_ref ?tl = Inr ?df\<close> by code_simp
  have short: \<open>length ?df < 3\<close> by simp
  have absent: \<open>py_getitem ?d ''trendPrediction'' = Inl (KeyError ''trendPrediction'')\<close> by simp
  from validate_channel_data_short_timeline[OF run get df short] run absent show ?thesis
    by simp
qed

text \<open>
  Counterexample to C10 as stated: the channel object already holds a key
  \<^verbatim>\<open>trendPrediction\<close>; its timeline is empty, and the report still holds that key.
\<close>

theorem validate_channel_data_keeps_trend_counterexample:
  \<open>create_growth_dataframe to_numeric_ref (PList []) = Inr [] \<and>
   validate_channel_data to_numeric_ref (topic_records_of example_env) numpy_ref
     (PDict [(''channelName'', PStr ''a''), (''stats'', PDict []), (''growthTimeline'', PList []),
             (''trendPrediction'', PStr ''up'')])
   = Inr (PDict [(''channelName'', PStr ''a''), (''stats'', PDict []), (''growthTimeline'', PList []),
                 (''trendPrediction'', PStr ''up''),
                 (''growthStatistics'',
                    PDict [(''avg_subscriber_growth'', PFloat (Fin 0)), (''avg_video_growth'', PFloat (Fin 0)),
                           (''growth_trend'', PStr ''insufficient_data'')])])\<close>
  by code_simp

end
